theory Spec2Isabelle
  imports Main "HOL-Library.Word" "HOL-Library.Sublist"
begin

section \<open>Strings, bytes and the browser platform\<close>

text \<open>
  A JavaScript string is a sequence of UTF-16 code units; a \<open>Uint8Array\<close> is a sequence of
  bytes. \<open>js\<close> writes an ASCII literal as a JavaScript string.
\<close>

type_synonym jsstring = "16 word list"
type_synonym bytes = "8 word list"

definition js :: "string \<Rightarrow> jsstring" where
  "js s = map of_char s"

text \<open>
  \<open>localStorage\<close>: a key-value store of strings. \<open>getItem\<close> of an absent key is \<open>null\<close>
  (\<open>None\<close>).
\<close>

type_synonym storage = "jsstring \<rightharpoonup> jsstring"

text \<open>
  The values \<open>JSON.parse\<close> can return. The properties of an object are strings, which is
  what \<open>Contact.toJSON\<close> writes (id, name, phone, address, category and the ISO text
  of createdAt); an absent property reads as \<open>undefined\<close>.
\<close>

datatype json =
    JNull
  | JBool bool
  | JNum int
  | JStr jsstring
  | JArr "json list"
  | JObj "(jsstring \<times> jsstring) list"

text \<open>
  The browser functions the repository calls but does not define are the fields of a
  record, so that every definition below is the repository's own code over a given
  browser. A field of type \<open>option\<close> is a call that can throw (\<open>None\<close>).
  \<^item> \<open>isSupported\<close>: \<open>crypto\<close> and \<open>crypto.subtle\<close> are defined;
  \<^item> \<open>importKey\<close>: \<open>JSON.parse\<close> of the stored key text, then \<open>crypto.subtle.importKey\<close>;
  \<^item> \<open>exportKey\<close>: \<open>crypto.subtle.exportKey\<close>, then \<open>JSON.stringify\<close>;
  \<^item> \<open>subtle_encrypt k iv data\<close>, \<open>subtle_decrypt k iv data\<close>: AES-GCM under key \<open>k\<close>;
  \<^item> \<open>textEncode\<close>, \<open>textDecode\<close>: \<open>TextEncoder.encode\<close>, \<open>TextDecoder.decode\<close>;
  \<^item> \<open>spread_ok n\<close>: a call with \<open>n\<close> spread arguments fits the engine's limit;
  \<^item> \<open>btoa\<close>, \<open>atob\<close>: base64 of a binary string and back;
  \<^item> \<open>json_stringify\<close>, \<open>json_parse\<close>: \<open>JSON.stringify\<close>, \<open>JSON.parse\<close>;
  \<^item> \<open>toISOString\<close>, \<open>parseDate\<close>: \<open>Date.prototype.toISOString\<close> of a valid time value,
    and the time value of \<open>new Date(text)\<close> (\<open>None\<close> is the invalid date);
  \<^item> \<open>toLowerCase\<close>: \<open>String.prototype.toLowerCase\<close>;
  \<^item> \<open>quota_ok st k v\<close>: \<open>localStorage.setItem(k, v)\<close> on the store \<open>st\<close> does not throw
    (\<open>QuotaExceededError\<close> otherwise).
\<close>

record 'k platform =
  isSupported :: bool
  importKey :: "jsstring \<Rightarrow> 'k option"
  exportKey :: "'k \<Rightarrow> jsstring option"
  subtle_encrypt :: "'k \<Rightarrow> bytes \<Rightarrow> bytes \<Rightarrow> bytes option"
  subtle_decrypt :: "'k \<Rightarrow> bytes \<Rightarrow> bytes \<Rightarrow> bytes option"
  textEncode :: "jsstring \<Rightarrow> bytes"
  textDecode :: "bytes \<Rightarrow> jsstring"
  spread_ok :: "nat \<Rightarrow> bool"
  btoa :: "jsstring \<Rightarrow> jsstring option"
  atob :: "jsstring \<Rightarrow> jsstring option"
  json_stringify :: "json \<Rightarrow> jsstring"
  json_parse :: "jsstring \<Rightarrow> json option"
  toISOString :: "int \<Rightarrow> jsstring"
  parseDate :: "jsstring \<Rightarrow> int option"
  toLowerCase :: "jsstring \<Rightarrow> jsstring"
  quota_ok :: "storage \<Rightarrow> jsstring \<Rightarrow> jsstring \<Rightarrow> bool"

definition setItem :: "'k platform \<Rightarrow> storage \<Rightarrow> jsstring \<Rightarrow> jsstring \<Rightarrow> storage option" where
  "setItem P st k v = (if quota_ok P st k v then Some (st(k \<mapsto> v)) else None)"

section \<open>Contact\<close>

text \<open>
  \<open>createdAt\<close> is a \<open>Date\<close>: a time value in milliseconds, or the invalid date (\<open>None\<close>),
  which \<open>new Date(text)\<close> gives for a text that is no date.
\<close>

record contact =
  c_id :: jsstring
  c_name :: jsstring
  c_phone :: jsstring
  c_address :: jsstring
  c_category :: jsstring
  c_createdAt :: "int option"

text \<open>
  The object given to the constructor and to \<open>addContact\<close>: name, phone, address and
  category are strings, id is optional.
\<close>

record contactData =
  d_id :: "jsstring option"
  d_name :: jsstring
  d_phone :: jsstring
  d_address :: jsstring
  d_category :: jsstring

text \<open>
  \<open>Number.prototype.toString(36)\<close> of a non-negative integer: the digits \<open>0\<close>-\<open>9\<close>,
  \<open>a\<close>-\<open>z\<close>, most significant first.
\<close>

definition digit36 :: "nat \<Rightarrow> 16 word" where
  "digit36 d = (if d < 10 then of_nat (48 + d) else of_nat (87 + d))"

function toString36 :: "nat \<Rightarrow> jsstring" where
  "toString36 n = (if n < 36 then [digit36 n] else toString36 (n div 36) @ [digit36 (n mod 36)])"
  by pat_completeness auto
termination
  by (relation "measure id") auto

declare toString36.simps [simp del]

text \<open>
  The constructor. \<open>now\<close> is the clock in milliseconds, which the constructor reads for the
  generated id (\<open>Date.now()\<close>) and for \<open>createdAt\<close> (\<open>new Date()\<close>); \<open>rnd\<close> is
  \<open>Math.random().toString(36).substr(2, 5)\<close>. An empty id is falsy, so that
  \<open>options.id || ...\<close> replaces it as it replaces an absent one.
\<close>

definition Contact :: "contactData \<Rightarrow> nat \<Rightarrow> jsstring \<Rightarrow> contact" where
  "Contact opts now rnd =
     \<lparr> c_id = (case d_id opts of
                 Some i \<Rightarrow> if i \<noteq> [] then i else toString36 now @ rnd
               | None \<Rightarrow> toString36 now @ rnd),
       c_name = d_name opts,
       c_phone = d_phone opts,
       c_address = d_address opts,
       c_category = d_category opts,
       c_createdAt = Some (int now) \<rparr>"

text \<open>
  \<open>toJSON\<close>: \<open>toISOString\<close> throws a \<open>RangeError\<close> on the invalid date (\<open>None\<close>).
\<close>

definition toJSON :: "'k platform \<Rightarrow> contact \<Rightarrow> (jsstring \<times> jsstring) list option" where
  "toJSON P c =
     (case c_createdAt c of
        None \<Rightarrow> None
      | Some t \<Rightarrow> Some [(js ''id'', c_id c), (js ''name'', c_name c), (js ''phone'', c_phone c),
                        (js ''address'', c_address c), (js ''category'', c_category c),
                        (js ''createdAt'', toISOString P t)])"

section \<open>ContactManager: duplicates and search\<close>

text \<open>
  \<open>hasDuplicate(name, category, excludeId = null)\<close>. The arguments are JavaScript values:
  a name or category may be \<open>undefined\<close> (\<open>None\<close>) when \<open>updateContact\<close> passes the
  properties of a partial object, and \<open>excludeId\<close> is \<open>null\<close> (\<open>None\<close>) by default. The
  fields of a stored contact are strings, and \<open>===\<close> between a string and
  \<open>undefined\<close> or \<open>null\<close> is false.
\<close>

definition hasDuplicate ::
  "contact list \<Rightarrow> jsstring option \<Rightarrow> jsstring option \<Rightarrow> jsstring option \<Rightarrow> bool" where
  "hasDuplicate cs name category excludeId =
     list_ex (\<lambda>c. Some (c_name c) = name \<and> Some (c_category c) = category
                   \<and> Some (c_id c) \<noteq> excludeId) cs"

definition getContactById :: "contact list \<Rightarrow> jsstring \<Rightarrow> contact option" where
  "getContactById cs i = find (\<lambda>c. c_id c = i) cs"

text \<open>The table of \<open>getPinyinFirstLetter\<close>, in the order of the object's keys.\<close>

definition pinyinMap :: "(string \<times> nat \<times> nat) list" where
  "pinyinMap =
    [
     (''a'', 19968, 20320), (''ai'', 20321, 20543), (''an'', 20544, 20807), (''ang'', 20808, 20982),
     (''ao'', 20983, 21199), (''ba'', 21200, 21474), (''bai'', 21475, 21605), (''ban'', 21606, 21884),
     (''bang'', 21885, 22031), (''bao'', 22032, 22302), (''bei'', 22303, 22530), (''ben'', 22531, 22621),
     (''beng'', 22622, 22786), (''bi'', 22787, 23009), (''bian'', 23010, 23242), (''biao'', 23243, 23384),
     (''bie'', 23385, 23532), (''bin'', 23533, 23751), (''bing'', 23752, 23942), (''bo'', 23943, 24190),
     (''bu'', 24191, 24382), (''ca'', 24383, 24507), (''cai'', 24508, 24688), (''can'', 24689, 24893),
     (''cang'', 24894, 25049), (''cao'', 25050, 25209), (''ce'', 25210, 25340), (''ceng'', 25341, 25462),
     (''cha'', 25463, 25667), (''chai'', 25668, 25770), (''chan'', 25771, 26039), (''chang'', 26040, 26255),
     (''chao'', 26256, 26410), (''che'', 26411, 26552), (''chen'', 26553, 26782), (''cheng'', 26783, 27038),
     (''chi'', 27039, 27295), (''chong'', 27296, 27485), (''chou'', 27486, 27730), (''chu'', 27731, 28049),
     (''chuai'', 28050, 28150), (''chuan'', 28151, 28303), (''chuang'', 28304, 28473), (''chui'', 28474, 28603),
     (''chun'', 28604, 28779), (''chuo'', 28780, 28903), (''ci'', 28904, 29134), (''cong'', 29135, 29386),
     (''cou'', 29387, 29505), (''cu'', 29506, 29634), (''cuan'', 29635, 29760), (''cui'', 29761, 29901),
     (''cun'', 29902, 30035), (''cuo'', 30036, 30253), (''da'', 30254, 30485), (''dai'', 30486, 30638),
     (''dan'', 30639, 30872), (''dang'', 30873, 31071), (''dao'', 31072, 31293), (''de'', 31294, 31400),
     (''deng'', 31401, 31584), (''di'', 31585, 31892), (''dian'', 31893, 32188), (''diao'', 32189, 32323),
     (''die'', 32324, 32538), (''ding'', 32539, 32780), (''diu'', 32781, 32799), (''dong'', 32800, 33054),
     (''dou'', 33055, 33270), (''du'', 33271, 33626), (''duan'', 33627, 33845), (''dui'', 33846, 34020),
     (''dun'', 34021, 34243), (''duo'', 34244, 34445), (''e'', 34446, 34708), (''en'', 34709, 34899),
     (''er'', 34900, 35055), (''fa'', 35056, 35279), (''fan'', 35280, 35529), (''fang'', 35530, 35781),
     (''fei'', 35782, 36044), (''fen'', 36045, 36310), (''feng'', 36311, 36592), (''fo'', 36593, 36741),
     (''fou'', 36742, 36757), (''fu'', 36758, 37119), (''ga'', 37120, 37323), (''gai'', 37324, 37517),
     (''gan'', 37518, 37730), (''gang'', 37731, 37892), (''gao'', 37893, 38150), (''ge'', 38151, 38428),
     (''gei'', 38429, 38508), (''gen'', 38509, 38663), (''geng'', 38664, 38890), (''gong'', 38891, 39139),
     (''gou'', 39140, 39318), (''gu'', 39319, 39750), (''gua'', 39751, 39927), (''guai'', 39928, 40039),
     (''guan'', 40040, 40230), (''guang'', 40231, 40390), (''gui'', 40391, 40607), (''gun'', 40608, 40715),
     (''guo'', 40716, 40889), (''ha'', 40890, 41030), (''hai'', 41031, 41196), (''han'', 41197, 41417),
     (''hang'', 41418, 41583), (''hao'', 41584, 41775), (''he'', 41776, 42010), (''hei'', 42011, 42089),
     (''hen'', 42090, 42230), (''heng'', 42231, 42419), (''hong'', 42420, 42595), (''hou'', 42596, 42789),
     (''hu'', 42790, 43311), (''hua'', 43312, 43479), (''huai'', 43480, 43617), (''huan'', 43618, 43820),
     (''huang'', 43821, 44030), (''hui'', 44031, 44289), (''hun'', 44290, 44470), (''huo'', 44471, 44670),
     (''ji'', 44671, 45252), (''jia'', 45253, 45589), (''jian'', 45590, 46083), (''jiang'', 46084, 46390),
     (''jiao'', 46391, 46742), (''jie'', 46743, 47093), (''jin'', 47094, 47517), (''jing'', 47518, 47930),
     (''jiong'', 47931, 48118), (''jiu'', 48119, 48299), (''ju'', 48300, 48694), (''juan'', 48695, 48889),
     (''jue'', 48890, 49250), (''jun'', 49251, 49450), (''ka'', 49451, 49625), (''kai'', 49626, 49785),
     (''kan'', 49786, 50010), (''kang'', 50011, 50160), (''kao'', 50161, 50242), (''ke'', 50243, 50505),
     (''ken'', 50506, 50630), (''keng'', 50631, 50760), (''kong'', 50761, 50890), (''kou'', 50891, 51045),
     (''ku'', 51046, 51307), (''kua'', 51308, 51403), (''kuai'', 51404, 51507), (''kuan'', 51508, 51647),
     (''kuang'', 51648, 51832), (''kui'', 51833, 52019), (''kun'', 52020, 52230), (''kuo'', 52231, 52382),
     (''la'', 52383, 52586), (''lai'', 52587, 52720), (''lan'', 52721, 53049), (''lang'', 53050, 53219),
     (''lao'', 53220, 53379), (''le'', 53380, 53539), (''lei'', 53540, 53749), (''leng'', 53750, 53839),
     (''li'', 53840, 54480), (''lia'', 54481, 54540), (''lian'', 54541, 54991), (''liang'', 54992, 55289),
     (''liao'', 55290, 55647), (''lie'', 55648, 55908), (''lin'', 55909, 56242), (''ling'', 56243, 56589),
     (''liu'', 56590, 56924), (''long'', 56925, 57184), (''lou'', 57185, 57334), (''lu'', 57335, 57796),
     (''lv'', 57797, 57980), (''luan'', 57981, 58133), (''lue'', 58134, 58240), (''lun'', 58241, 58480),
     (''luo'', 58481, 58908), (''ma'', 58909, 59170), (''mai'', 59171, 59306), (''man'', 59307, 59600),
     (''mang'', 59601, 59770), (''mao'', 59771, 60105), (''me'', 60106, 60200), (''mei'', 60201, 60480),
     (''men'', 60481, 60600), (''meng'', 60601, 60810), (''mi'', 60811, 61330), (''mian'', 61331, 61580),
     (''miao'', 61581, 61790), (''mie'', 61791, 61930), (''min'', 61931, 62122), (''ming'', 62123, 62280),
     (''miu'', 62281, 62299), (''mo'', 62300, 62689), (''mou'', 62690, 62830), (''mu'', 62831, 63065),
     (''na'', 63066, 63240), (''nai'', 63241, 63370), (''nan'', 63371, 63520), (''nang'', 63521, 63640),
     (''nao'', 63641, 63840), (''ne'', 63841, 63920), (''nei'', 63921, 64030), (''nen'', 64031, 64080),
     (''neng'', 64081, 64170), (''ni'', 64171, 64689), (''nian'', 64690, 64960), (''niang'', 64961, 65040),
     (''niao'', 65041, 65130), (''nie'', 65131, 65380), (''nin'', 65381, 65440), (''ning'', 65441, 65580),
     (''niu'', 65581, 65680), (''nong'', 65681, 65790), (''nu'', 65791, 65900), (''nv'', 65901, 65940),
     (''nuan'', 65941, 66010), (''nue'', 66011, 66050), (''nuo'', 66051, 66170), (''o'', 66171, 66230),
     (''ou'', 66231, 66430), (''pa'', 66431, 66570), (''pai'', 66571, 66740), (''pan'', 66741, 67030),
     (''pang'', 67031, 67180), (''pao'', 67181, 67380), (''pei'', 67381, 67540), (''pen'', 67541, 67640),
     (''peng'', 67641, 67910), (''pi'', 67911, 68330), (''pian'', 68331, 68520), (''piao'', 68521, 68700),
     (''pie'', 68701, 68800), (''pin'', 68801, 69000), (''ping'', 69001, 69260), (''po'', 69261, 69540),
     (''pu'', 69541, 69880), (''qi'', 69881, 70449), (''qia'', 70450, 70580), (''qian'', 70581, 71099),
     (''qiang'', 71100, 71309), (''qiao'', 71310, 71519), (''qie'', 71520, 71649), (''qin'', 71650, 71939),
     (''qing'', 71940, 72249), (''qiong'', 72250, 72409), (''qiu'', 72410, 72679), (''qu'', 72680, 73149),
     (''quan'', 73150, 73349), (''que'', 73350, 73649), (''qun'', 73650, 73849), (''ran'', 73850, 74039),
     (''rang'', 74040, 74199), (''rao'', 74200, 74359), (''re'', 74360, 74449), (''ren'', 74450, 74739),
     (''reng'', 74740, 74859), (''ri'', 74860, 74929), (''rong'', 74930, 75209), (''rou'', 75210, 75349),
     (''ru'', 75350, 75709), (''ruan'', 75710, 75819), (''rui'', 75820, 75939), (''run'', 75940, 76039),
     (''ruo'', 76040, 76209), (''sa'', 76210, 76369), (''sai'', 76370, 76509), (''san'', 76510, 76729),
     (''sang'', 76730, 76889), (''sao'', 76890, 77049), (''se'', 77050, 77189), (''sen'', 77190, 77249),
     (''seng'', 77250, 77329), (''sha'', 77330, 77619), (''shai'', 77620, 77729), (''shan'', 77730, 78209),
     (''shang'', 78210, 78549), (''shao'', 78550, 78809), (''she'', 78810, 79039), (''shen'', 79040, 79499),
     (''sheng'', 79500, 79819), (''shi'', 79820, 80449), (''shou'', 80450, 80709), (''shu'', 80710, 81209),
     (''shua'', 81210, 81289), (''shuai'', 81290, 81389), (''shuan'', 81390, 81489), (''shuang'', 81490, 81609),
     (''shui'', 81610, 81709), (''shun'', 81710, 81899), (''shuo'', 81900, 82019), (''si'', 82020, 82529),
     (''song'', 82530, 82889), (''sou'', 82890, 83139), (''su'', 83140, 83479), (''suan'', 83480, 83589),
     (''sui'', 83590, 83869), (''sun'', 83870, 84049), (''suo'', 84050, 84389), (''ta'', 84390, 84649),
     (''tai'', 84650, 84899), (''tan'', 84900, 85319), (''tang'', 85320, 85689), (''tao'', 85690, 86009),
     (''te'', 86010, 86099), (''teng'', 86100, 86249), (''ti'', 86250, 86789), (''tian'', 86790, 87089),
     (''tiao'', 87090, 87339), (''tie'', 87340, 87489), (''ting'', 87490, 87769), (''tong'', 87770, 88049),
     (''tou'', 88050, 88199), (''tu'', 88200, 88549), (''tuan'', 88550, 88659), (''tui'', 88660, 88829),
     (''tun'', 88830, 89049), (''tuo'', 89050, 89359), (''wa'', 89360, 89549), (''wai'', 89550, 89649),
     (''wan'', 89650, 90049), (''wang'', 90050, 90309), (''wei'', 90310, 90919), (''wen'', 90920, 91249),
     (''weng'', 91250, 91409), (''wo'', 91410, 91629), (''wu'', 91630, 92159), (''xi'', 92160, 92789),
     (''xia'', 92790, 93149), (''xian'', 93150, 93719), (''xiang'', 93720, 94159), (''xiao'', 94160, 94669),
     (''xie'', 94670, 95159), (''xin'', 95160, 95489), (''xing'', 95490, 95929), (''xiong'', 95930, 96109),
     (''xiu'', 96110, 96339), (''xu'', 96340, 96899), (''xuan'', 96900, 97229), (''xue'', 97230, 97409),
     (''xun'', 97410, 97809), (''ya'', 97810, 98249), (''yan'', 98250, 98929), (''yang'', 98930, 99329),
     (''yao'', 99330, 99849), (''ye'', 99850, 100259), (''yi'', 100260, 100979), (''yin'', 100980, 101489),
     (''ying'', 101490, 102049), (''yo'', 102050, 102109), (''yong'', 102110, 102489), (''you'', 102490, 102999),
     (''yu'', 103000, 103719), (''yuan'', 103720, 104239), (''yue'', 104240, 104489), (''yun'', 104490, 105049),
     (''za'', 105050, 105209), (''zai'', 105210, 105349), (''zan'', 105350, 105529), (''zang'', 105530, 105649),
     (''zao'', 105650, 105929), (''ze'', 105930, 106149), (''zei'', 106150, 106199), (''zen'', 106200, 106289),
     (''zeng'', 106290, 106489), (''zha'', 106490, 106949), (''zhai'', 106950, 107109), (''zhan'', 107110, 107489),
     (''zhang'', 107490, 107809), (''zhao'', 107810, 108049), (''zhe'', 108050, 108429), (''zhen'', 108430, 108909),
     (''zheng'', 108910, 109349), (''zhi'', 109350, 110179), (''zhong'', 110180, 110519), (''zhou'', 110520, 110999),
     (''zhu'', 111000, 111509), (''zhua'', 111510, 111589), (''zhuai'', 111590, 111649), (''zhuan'', 111650, 111939),
     (''zhuang'', 111940, 112139), (''zhui'', 112140, 112349), (''zhun'', 112350, 112509), (''zhuo'', 112510, 112839),
     (''zi'', 112840, 113319), (''zong'', 113320, 113539), (''zou'', 113540, 113729), (''zu'', 113730, 114059),
     (''zuan'', 114060, 114169), (''zui'', 114170, 114259), (''zun'', 114260, 114399), (''zuo'', 114400, 114789),
     (''zz'', 114790, 114879)
    ]"

definition is_latin_letter :: "16 word \<Rightarrow> bool" where
  "is_latin_letter c = ((97 \<le> c \<and> c \<le> 122) \<or> (65 \<le> c \<and> c \<le> 90))"

definition is_digit :: "16 word \<Rightarrow> bool" where
  "is_digit c = (48 \<le> c \<and> c \<le> 57)"

text \<open>
  \<open>getPinyinFirstLetter(char)\<close> for a string of one code unit, as \<open>split('')\<close> gives:
  a Latin letter in lower case, a digit as it is, the first letter of the first table
  entry whose range holds \<open>charCodeAt(0)\<close>, or the empty string.
\<close>

definition getPinyinFirstLetter :: "'k platform \<Rightarrow> 16 word \<Rightarrow> jsstring" where
  "getPinyinFirstLetter P ch =
     (if is_latin_letter ch then toLowerCase P [ch]
      else if is_digit ch then [ch]
      else (case find (\<lambda>(letter, start, end). start \<le> unat ch \<and> unat ch \<le> end) pinyinMap of
              Some (letter, start, end) \<Rightarrow> toLowerCase P (js (take 1 letter))
            | None \<Rightarrow> []))"

definition getPinyinInitials :: "'k platform \<Rightarrow> jsstring \<Rightarrow> jsstring" where
  "getPinyinInitials P str = concat (map (getPinyinFirstLetter P) str)"

text \<open>\<open>String.prototype.includes\<close>: the argument occurs as a contiguous run.\<close>

fun js_includes :: "'a list \<Rightarrow> 'a list \<Rightarrow> bool" where
  "js_includes [] k = (k = [])"
| "js_includes (x # xs) k = (prefix k (x # xs) \<or> js_includes xs k)"

definition all_category :: jsstring where
  "all_category = js ''all''"

definition matchContact :: "'k platform \<Rightarrow> jsstring \<Rightarrow> jsstring \<Rightarrow> contact \<Rightarrow> bool" where
  "matchContact P category keyword contact =
     (let matchCategory = (category = all_category \<or> c_category contact = category)
      in if keyword = [] then matchCategory
         else
           let lowerKeyword = toLowerCase P keyword;
               nameInitials = getPinyinInitials P (c_name contact);
               addressInitials = getPinyinInitials P (c_address contact);
               categoryInitials = getPinyinInitials P (c_category contact);
               matchKeyword =
                 (js_includes (toLowerCase P (c_name contact)) lowerKeyword \<or>
                  js_includes nameInitials lowerKeyword \<or>
                  js_includes (c_phone contact) keyword \<or>
                  js_includes (toLowerCase P (c_address contact)) lowerKeyword \<or>
                  js_includes addressInitials lowerKeyword \<or>
                  js_includes (toLowerCase P (c_category contact)) lowerKeyword \<or>
                  js_includes categoryInitials lowerKeyword)
           in matchCategory \<and> matchKeyword)"

definition filterContacts :: "'k platform \<Rightarrow> contact list \<Rightarrow> jsstring \<Rightarrow> jsstring \<Rightarrow> contact list" where
  "filterContacts P cs category keyword = filter (matchContact P category keyword) cs"

section \<open>Crypto\<close>

definition keyName :: jsstring where
  "keyName = js ''contact-manager-key''"

definition ivLength :: nat where
  "ivLength = 12"

text \<open>
  \<open>getKey\<close>: \<open>null\<close> (\<open>None\<close>) without Web Crypto; the stored key when the key slot holds a
  non-empty text (\<open>null\<close> when importing it throws); otherwise the fresh key \<open>g\<close> that
  \<open>generateKey\<close> returns, once its exported text is written to the key slot (\<open>null\<close> when
  exporting or writing throws).
\<close>

definition newKey :: "'k platform \<Rightarrow> storage \<Rightarrow> 'k \<Rightarrow> 'k option \<times> storage" where
  "newKey P st g =
     (case exportKey P g of
        None \<Rightarrow> (None, st)
      | Some exportedKey \<Rightarrow>
          (case setItem P st keyName exportedKey of
             None \<Rightarrow> (None, st)
           | Some st' \<Rightarrow> (Some g, st')))"

definition getKey :: "'k platform \<Rightarrow> storage \<Rightarrow> 'k \<Rightarrow> 'k option \<times> storage" where
  "getKey P st g =
     (if \<not> isSupported P then (None, st)
      else case st keyName of
             Some storedKey \<Rightarrow>
               if storedKey \<noteq> [] then (importKey P storedKey, st) else newKey P st g
           | None \<Rightarrow> newKey P st g)"

text \<open>
  \<open>generateIV\<close>: \<open>crypto.getRandomValues\<close> fills an array of \<open>ivLength\<close> bytes; \<open>r i\<close> is
  the random byte it writes at index \<open>i\<close>.
\<close>

definition generateIV :: "(nat \<Rightarrow> 8 word) \<Rightarrow> bytes" where
  "generateIV r = map r [0..<ivLength]"

text \<open>
  \<open>arrayBufferToBase64\<close> spreads the bytes into the arguments of
  \<open>String.fromCharCode\<close>, which throws a \<open>RangeError\<close> beyond the engine's argument limit,
  and gives the binary string to \<open>btoa\<close>. \<open>base64ToArrayBuffer\<close> stores each code unit of
  \<open>atob\<close>'s result in a byte.
\<close>

definition arrayBufferToBase64 :: "'k platform \<Rightarrow> bytes \<Rightarrow> jsstring option" where
  "arrayBufferToBase64 P buffer =
     (if spread_ok P (length buffer) then btoa P (map ucast buffer) else None)"

definition base64ToArrayBuffer :: "'k platform \<Rightarrow> jsstring \<Rightarrow> bytes option" where
  "base64ToArrayBuffer P base64 =
     (case atob P base64 of
        None \<Rightarrow> None
      | Some binaryString \<Rightarrow> Some (map ucast binaryString))"

text \<open>
  The \<open>try\<close> blocks of \<open>encrypt\<close> and \<open>decrypt\<close>, with \<open>None\<close> for a thrown exception.
\<close>

definition encrypt_try :: "'k platform \<Rightarrow> 'k \<Rightarrow> bytes \<Rightarrow> jsstring \<Rightarrow> jsstring option" where
  "encrypt_try P key iv data =
     (case subtle_encrypt P key iv (textEncode P data) of
        None \<Rightarrow> None
      | Some encrypted \<Rightarrow> arrayBufferToBase64 P (iv @ encrypted))"

definition decrypt_try :: "'k platform \<Rightarrow> 'k \<Rightarrow> jsstring \<Rightarrow> jsstring option" where
  "decrypt_try P key encryptedData =
     (case base64ToArrayBuffer P encryptedData of
        None \<Rightarrow> None
      | Some combined \<Rightarrow>
          (let iv = take ivLength combined;
               encrypted = drop ivLength combined
           in case subtle_decrypt P key iv encrypted of
                None \<Rightarrow> None
              | Some decrypted \<Rightarrow> Some (textDecode P decrypted)))"

text \<open>
  \<open>encrypt\<close> and \<open>decrypt\<close> for a key already obtained (\<open>null\<close> is \<open>None\<close>): without a key,
  and in the \<open>catch\<close> block, both return their argument.
\<close>

definition encrypt_with :: "'k platform \<Rightarrow> 'k option \<Rightarrow> bytes \<Rightarrow> jsstring \<Rightarrow> jsstring" where
  "encrypt_with P key iv data =
     (case key of
        None \<Rightarrow> data
      | Some k \<Rightarrow> (case encrypt_try P k iv data of None \<Rightarrow> data | Some e \<Rightarrow> e))"

definition decrypt_with :: "'k platform \<Rightarrow> 'k option \<Rightarrow> jsstring \<Rightarrow> jsstring" where
  "decrypt_with P key encryptedData =
     (case key of
        None \<Rightarrow> encryptedData
      | Some k \<Rightarrow> (case decrypt_try P k encryptedData of None \<Rightarrow> encryptedData | Some d \<Rightarrow> d))"

text \<open>
  The methods themselves. \<open>g\<close> is the key \<open>generateKey\<close> would return and \<open>r\<close> the random
  bytes of \<open>generateIV\<close>; the store is returned because \<open>getKey\<close> may write the key slot.
\<close>

definition encrypt ::
  "'k platform \<Rightarrow> storage \<Rightarrow> 'k \<Rightarrow> (nat \<Rightarrow> 8 word) \<Rightarrow> jsstring \<Rightarrow> jsstring \<times> storage" where
  "encrypt P st g r data =
     (let (key, st') = getKey P st g
      in (encrypt_with P key (generateIV r) data, st'))"

definition decrypt :: "'k platform \<Rightarrow> storage \<Rightarrow> 'k \<Rightarrow> jsstring \<Rightarrow> jsstring \<times> storage" where
  "decrypt P st g encryptedData =
     (let (key, st') = getKey P st g
      in (decrypt_with P key encryptedData, st'))"

text \<open>
  \<open>encryptAndStore\<close> returns false when \<open>setItem\<close> throws; \<open>readAndDecrypt\<close> returns
  \<open>null\<close> (\<open>JNull\<close>) for an absent or empty item and when \<open>JSON.parse\<close> throws.
\<close>

definition encryptAndStore ::
  "'k platform \<Rightarrow> storage \<Rightarrow> 'k \<Rightarrow> (nat \<Rightarrow> 8 word) \<Rightarrow> jsstring \<Rightarrow> json \<Rightarrow> bool \<times> storage" where
  "encryptAndStore P st g r key data =
     (let jsonData = json_stringify P data;
          (encrypted, st1) = encrypt P st g r jsonData
      in case setItem P st1 key encrypted of
           None \<Rightarrow> (False, st1)
         | Some st2 \<Rightarrow> (True, st2))"

definition readAndDecrypt :: "'k platform \<Rightarrow> storage \<Rightarrow> 'k \<Rightarrow> jsstring \<Rightarrow> json \<times> storage" where
  "readAndDecrypt P st g key =
     (case st key of
        None \<Rightarrow> (JNull, st)
      | Some encryptedData \<Rightarrow>
          if encryptedData = [] then (JNull, st)
          else
            let (decrypted, st1) = decrypt P st g encryptedData
            in (case json_parse P decrypted of None \<Rightarrow> (JNull, st1) | Some v \<Rightarrow> (v, st1)))"

section \<open>ContactManager: persistence and mutation\<close>

text \<open>
  The manager holds the contact array and the registered callbacks. A callback is known
  by whether it returns (\<open>True\<close>) or throws (\<open>False\<close>) when it runs on the current array.
\<close>

record manager =
  contacts :: "contact list"
  listeners :: "(contact list \<Rightarrow> bool) list"

text \<open>
  What one call draws from the clock and the random sources: \<open>Date.now()\<close>, the random
  suffix of a generated id, the key \<open>generateKey\<close> returns, the bytes of \<open>generateIV\<close>.
\<close>

record 'k entropy =
  e_now :: nat
  e_rnd :: jsstring
  e_key :: 'k
  e_iv :: "nat \<Rightarrow> 8 word"

definition contactsKey :: jsstring where
  "contactsKey = js ''contacts''"

datatype failure =
    Duplicate "jsstring option"
  | SaveFailed
  | NotFound
  | DeleteFailed
  | UpdateFailed

datatype result = Success contact | Failure failure

definition notifyListeners :: "manager \<Rightarrow> bool" where
  "notifyListeners M = list_all (\<lambda>callback. callback (contacts M)) (listeners M)"

text \<open>
  \<open>saveToStorage\<close>: an exception of \<open>toJSON\<close> or of a callback is caught and gives false;
  a callback runs after the store is written.
\<close>

definition saveToStorage :: "'k platform \<Rightarrow> manager \<Rightarrow> storage \<Rightarrow> 'k entropy \<Rightarrow> bool \<times> storage" where
  "saveToStorage P M st E =
     (case those (map (toJSON P) (contacts M)) of
        None \<Rightarrow> (False, st)
      | Some data \<Rightarrow>
          (let (success, st1) = encryptAndStore P st (e_key E) (e_iv E) contactsKey (JArr (map JObj data))
           in if success then (notifyListeners M, st1) else (False, st1)))"

definition addContact ::
  "'k platform \<Rightarrow> manager \<Rightarrow> storage \<Rightarrow> 'k entropy \<Rightarrow> contactData \<Rightarrow> result \<times> manager \<times> storage" where
  "addContact P M st E contactData =
     (if hasDuplicate (contacts M) (Some (d_name contactData)) (Some (d_category contactData)) None
      then (Failure (Duplicate (Some (d_name contactData))), M, st)
      else
        let contact = Contact contactData (e_now E) (e_rnd E);
            M1 = M\<lparr>contacts := contacts M @ [contact]\<rparr>;
            (saveSuccess, st1) = saveToStorage P M1 st E
        in if \<not> saveSuccess
           then (Failure SaveFailed, M1\<lparr>contacts := butlast (contacts M1)\<rparr>, st1)
           else (Success contact, M1, st1))"

fun findIndex :: "('a \<Rightarrow> bool) \<Rightarrow> 'a list \<Rightarrow> nat option" where
  "findIndex p [] = None"
| "findIndex p (x # xs) = (if p x then Some 0 else map_option Suc (findIndex p xs))"

text \<open>\<open>splice(i, 1)\<close> and \<open>splice(i, 0, x)\<close>.\<close>

definition splice_remove :: "nat \<Rightarrow> 'a list \<Rightarrow> 'a list" where
  "splice_remove i xs = take i xs @ drop (Suc i) xs"

definition splice_insert :: "nat \<Rightarrow> 'a \<Rightarrow> 'a list \<Rightarrow> 'a list" where
  "splice_insert i x xs = take i xs @ [x] @ drop i xs"

definition deleteContact ::
  "'k platform \<Rightarrow> manager \<Rightarrow> storage \<Rightarrow> 'k entropy \<Rightarrow> jsstring \<Rightarrow> result \<times> manager \<times> storage" where
  "deleteContact P M st E ident =
     (case findIndex (\<lambda>c. c_id c = ident) (contacts M) of
        None \<Rightarrow> (Failure NotFound, M, st)
      | Some contactIndex \<Rightarrow>
          let deletedContact = contacts M ! contactIndex;
              M1 = M\<lparr>contacts := splice_remove contactIndex (contacts M)\<rparr>;
              (saveSuccess, st1) = saveToStorage P M1 st E
          in if \<not> saveSuccess
             then (Failure DeleteFailed,
                   M1\<lparr>contacts := splice_insert contactIndex deletedContact (contacts M1)\<rparr>, st1)
             else (Success deletedContact, M1, st1))"

text \<open>
  The object given to \<open>updateContact\<close>; an absent property keeps the stored value when
  the object is spread over \<open>originalContact.toJSON()\<close>.
\<close>

record updatedData =
  u_id :: "jsstring option"
  u_name :: "jsstring option"
  u_phone :: "jsstring option"
  u_address :: "jsstring option"
  u_category :: "jsstring option"

definition or_else :: "'a option \<Rightarrow> 'a \<Rightarrow> 'a" where
  "or_else v d = (case v of Some x \<Rightarrow> x | None \<Rightarrow> d)"

definition spread :: "contact \<Rightarrow> updatedData \<Rightarrow> contactData" where
  "spread original u =
     \<lparr> d_id = Some (or_else (u_id u) (c_id original)),
       d_name = or_else (u_name u) (c_name original),
       d_phone = or_else (u_phone u) (c_phone original),
       d_address = or_else (u_address u) (c_address original),
       d_category = or_else (u_category u) (c_category original) \<rparr>"

text \<open>
  \<open>updateContact\<close> calls \<open>originalContact.toJSON()\<close> outside any \<open>try\<close>: on a contact whose
  date is invalid the call throws and the returned promise rejects (\<open>None\<close>).
\<close>

definition updateContact ::
  "'k platform \<Rightarrow> manager \<Rightarrow> storage \<Rightarrow> 'k entropy \<Rightarrow> jsstring \<Rightarrow> updatedData
     \<Rightarrow> (result \<times> manager \<times> storage) option" where
  "updateContact P M st E ident u =
     (case findIndex (\<lambda>c. c_id c = ident) (contacts M) of
        None \<Rightarrow> Some (Failure NotFound, M, st)
      | Some contactIndex \<Rightarrow>
          if hasDuplicate (contacts M) (u_name u) (u_category u) (Some ident)
          then Some (Failure (Duplicate (u_name u)), M, st)
          else
            let originalContact = contacts M ! contactIndex
            in (case toJSON P originalContact of
                 None \<Rightarrow> None
               | Some _ \<Rightarrow>
                   let constructed = Contact (spread originalContact u) (e_now E) (e_rnd E);
                       updatedContact = constructed\<lparr>c_createdAt := c_createdAt originalContact\<rparr>;
                       M1 = M\<lparr>contacts := list_update (contacts M) contactIndex updatedContact\<rparr>;
                       (saveSuccess, st1) = saveToStorage P M1 st E
                   in if \<not> saveSuccess
                      then Some (Failure UpdateFailed,
                                 M1\<lparr>contacts := list_update (contacts M1) contactIndex originalContact\<rparr>, st1)
                      else Some (Success updatedContact, M1, st1)))"

section \<open>ContactManager: loading\<close>

definition truthy :: "json \<Rightarrow> bool" where
  "truthy v = (case v of
                 JNull \<Rightarrow> False
               | JBool b \<Rightarrow> b
               | JNum n \<Rightarrow> n \<noteq> 0
               | JStr s \<Rightarrow> s \<noteq> []
               | JArr _ \<Rightarrow> True
               | JObj _ \<Rightarrow> True)"

text \<open>
  The filter of \<open>loadFromStorage\<close>: an item is kept when it is an object whose name, phone
  and category are strings. A property read on a number, a boolean, a string or an array
  is \<open>undefined\<close> for these names, and \<open>null\<close> is falsy.
\<close>

definition valid_item :: "json \<Rightarrow> bool" where
  "valid_item item =
     (case item of
        JObj props \<Rightarrow> map_of props (js ''name'') \<noteq> None \<and> map_of props (js ''phone'') \<noteq> None
                       \<and> map_of props (js ''category'') \<noteq> None
      | _ \<Rightarrow> False)"

text \<open>
  The map of \<open>loadFromStorage\<close> on a kept item: \<open>new Contact(item)\<close>, the stored date when
  \<open>item.createdAt\<close> is a non-empty text, and the empty string for an absent address.
\<close>

definition load_item :: "'k platform \<Rightarrow> (jsstring \<times> jsstring) list \<Rightarrow> nat \<times> jsstring \<Rightarrow> contact" where
  "load_item P props fresh =
     (let contact = Contact \<lparr> d_id = map_of props (js ''id''),
                              d_name = or_else (map_of props (js ''name'')) [],
                              d_phone = or_else (map_of props (js ''phone'')) [],
                              d_address = or_else (map_of props (js ''address'')) [],
                              d_category = or_else (map_of props (js ''category'')) [] \<rparr>
                            (fst fresh) (snd fresh)
      in case map_of props (js ''createdAt'') of
           Some text \<Rightarrow> if text \<noteq> [] then contact\<lparr>c_createdAt := parseDate P text\<rparr> else contact
         | None \<Rightarrow> contact)"

definition item_props :: "json \<Rightarrow> (jsstring \<times> jsstring) list" where
  "item_props item = (case item of JObj props \<Rightarrow> props | _ \<Rightarrow> [])"

text \<open>
  \<open>loadFromStorage\<close>. \<open>g\<close> is the key \<open>generateKey\<close> would return, and \<open>fresh i\<close> the clock and
  the random suffix read by the constructor of the \<open>i\<close>-th kept item. No call of the \<open>try\<close>
  block throws on the values of this model (\<open>readAndDecrypt\<close> catches its own), so the
  \<open>catch\<close> block is not a branch here.
\<close>

definition loadFromStorage ::
  "'k platform \<Rightarrow> manager \<Rightarrow> storage \<Rightarrow> 'k \<Rightarrow> (nat \<Rightarrow> nat \<times> jsstring) \<Rightarrow> manager \<times> storage" where
  "loadFromStorage P M st g fresh =
     (let (data, st1) = readAndDecrypt P st g contactsKey
      in if truthy data
         then (case data of
                 JArr items \<Rightarrow>
                   (let kept = filter valid_item items
                    in (M\<lparr>contacts := map (\<lambda>(i, item). load_item P (item_props item) (fresh i))
                                            (zip [0..<length kept] kept)\<rparr>, st1))
               | _ \<Rightarrow> (M\<lparr>contacts := []\<rparr>, st1))
         else (M, st1))"

section \<open>AddContactModal: the form in front of the manager\<close>

text \<open>
  \<open>String.prototype.trim\<close> removes the white space and line terminators of ECMAScript at
  both ends.
\<close>

definition is_whitespace :: "16 word \<Rightarrow> bool" where
  "is_whitespace c =
     (c \<in> set [0x9, 0xA, 0xB, 0xC, 0xD, 0x20, 0xA0, 0x1680, 0x2028, 0x2029, 0x202F, 0x205F,
                0x3000, 0xFEFF]
      \<or> (0x2000 \<le> c \<and> c \<le> 0x200A))"

definition trim :: "jsstring \<Rightarrow> jsstring" where
  "trim s = rev (dropWhile is_whitespace (rev (dropWhile is_whitespace s)))"

text \<open>
  The messages \<open>showError\<close> displays: the three of \<open>validateForm\<close>, the generic one of
  \<open>handleSubmit\<close>, and the \<open>error\<close> of a failed result.
\<close>

datatype message =
    RequiredFields
  | InvalidMobile
  | TooFewDigits
  | OperationFailed
  | Reported failure

record form =
  f_name :: jsstring
  f_phone :: jsstring
  f_address :: jsstring
  f_category :: jsstring

record addContactModal =
  editingContactId :: "jsstring option"
  errorMessage :: "message option"
  shown :: bool

definition showError :: "addContactModal \<Rightarrow> message \<Rightarrow> addContactModal" where
  "showError modal m = modal\<lparr>errorMessage := Some m\<rparr>"

text \<open>The regular expressions \<open>/^1\d{10}$/\<close> and \<open>/^\d{7,}$/\<close>.\<close>

definition mobile_pattern :: "jsstring \<Rightarrow> bool" where
  "mobile_pattern s = (case s of [] \<Rightarrow> False | c # cs \<Rightarrow> c = 49 \<and> length cs = 10 \<and> list_all is_digit cs)"

definition digits7_pattern :: "jsstring \<Rightarrow> bool" where
  "digits7_pattern s = (7 \<le> length s \<and> list_all is_digit s)"

definition validateForm :: "addContactModal \<Rightarrow> contactData \<Rightarrow> bool \<times> addContactModal" where
  "validateForm modal contactData =
     (if d_name contactData = [] \<or> d_phone contactData = [] \<or> d_address contactData = []
      then (False, showError modal RequiredFields)
      else if length (d_phone contactData) = 11 \<and> \<not> mobile_pattern (d_phone contactData)
      then (False, showError modal InvalidMobile)
      else if \<not> digits7_pattern (d_phone contactData)
      then (False, showError modal TooFewDigits)
      else (True, modal))"

definition as_update :: "contactData \<Rightarrow> updatedData" where
  "as_update d =
     \<lparr> u_id = d_id d, u_name = Some (d_name d), u_phone = Some (d_phone d),
       u_address = Some (d_address d), u_category = Some (d_category d) \<rparr>"

text \<open>
  \<open>handleSubmit\<close>, with \<open>onSave\<close> and \<open>onUpdate\<close> bound to \<open>addContact\<close> and \<open>updateContact\<close>
  of the manager, as the application does. An exception of the callback is caught.
\<close>

definition handleSubmit ::
  "'k platform \<Rightarrow> addContactModal \<Rightarrow> form \<Rightarrow> manager \<Rightarrow> storage \<Rightarrow> 'k entropy
     \<Rightarrow> addContactModal \<times> manager \<times> storage" where
  "handleSubmit P modal frm M st E =
     (let contactData = \<lparr> d_id = None, d_name = trim (f_name frm), d_phone = trim (f_phone frm),
                           d_address = trim (f_address frm), d_category = f_category frm \<rparr>;
          (valid, modal1) = validateForm modal contactData
      in if \<not> valid then (modal1, M, st)
         else
           let called =
                 (case editingContactId modal1 of
                    Some ident \<Rightarrow>
                      if ident \<noteq> [] then updateContact P M st E ident (as_update contactData)
                      else Some (addContact P M st E contactData)
                  | None \<Rightarrow> Some (addContact P M st E contactData))
           in (case called of
                 None \<Rightarrow> (showError modal1 OperationFailed, M, st)
               | Some (Success _, M', st') \<Rightarrow> (modal1\<lparr>shown := False\<rparr>, M', st')
               | Some (Failure f, M', st') \<Rightarrow> (showError modal1 (Reported f), M', st')))"

section \<open>Notions used to state the properties\<close>

text \<open>No two contacts share both name and category.\<close>

definition unique_name_category :: "contact list \<Rightarrow> bool" where
  "unique_name_category cs = distinct (map (\<lambda>c. (c_name c, c_category c)) cs)"

text \<open>
  The in-memory state each mutation hands to \<open>saveToStorage\<close>: the array after the push,
  after the removal at the index found, and after the replacement at the index found.
\<close>

definition pushed :: "manager \<Rightarrow> 'k entropy \<Rightarrow> contactData \<Rightarrow> manager" where
  "pushed M E d = M\<lparr>contacts := contacts M @ [Contact d (e_now E) (e_rnd E)]\<rparr>"

definition removed :: "manager \<Rightarrow> nat \<Rightarrow> manager" where
  "removed M i = M\<lparr>contacts := splice_remove i (contacts M)\<rparr>"

definition updated :: "contact \<Rightarrow> 'k entropy \<Rightarrow> updatedData \<Rightarrow> contact" where
  "updated original E u =
     (let constructed = Contact (spread original u) (e_now E) (e_rnd E)
      in constructed\<lparr>c_createdAt := c_createdAt original\<rparr>)"

definition replaced :: "manager \<Rightarrow> nat \<Rightarrow> 'k entropy \<Rightarrow> updatedData \<Rightarrow> manager" where
  "replaced M i E u = M\<lparr>contacts := list_update (contacts M) i (updated (contacts M ! i) E u)\<rparr>"

text \<open>
  The key both \<open>encrypt\<close> and \<open>decrypt\<close> obtain when the key slot already holds one.
\<close>

definition stored_key :: "'k platform \<Rightarrow> storage \<Rightarrow> 'k option" where
  "stored_key P st =
     (if isSupported P
      then (case st keyName of
              Some storedKey \<Rightarrow> if storedKey \<noteq> [] then importKey P storedKey else None
            | None \<Rightarrow> None)
      else None)"

text \<open>
  What the properties ask of the browser: AES-GCM decryption under the same key and
  nonce inverts encryption; \<open>atob\<close> inverts \<open>btoa\<close>, whose result is empty only for the
  empty string; the text codec gives back a given string; \<open>JSON.parse\<close> gives back a
  given value from its non-empty \<open>JSON.stringify\<close> text.
\<close>

definition aes_gcm_inverse :: "'k platform \<Rightarrow> bool" where
  "aes_gcm_inverse P =
     (\<forall>k iv data encrypted. subtle_encrypt P k iv data = Some encrypted
          \<longrightarrow> subtle_decrypt P k iv encrypted = Some data)"

definition base64_inverse :: "'k platform \<Rightarrow> bool" where
  "base64_inverse P =
     (\<forall>bin e. btoa P bin = Some e \<longrightarrow> atob P e = Some bin \<and> (bin \<noteq> [] \<longrightarrow> e \<noteq> []))"

definition text_roundtrip :: "'k platform \<Rightarrow> jsstring \<Rightarrow> bool" where
  "text_roundtrip P s = (textDecode P (textEncode P s) = s)"

definition json_roundtrip :: "'k platform \<Rightarrow> json \<Rightarrow> bool" where
  "json_roundtrip P v = (json_parse P (json_stringify P v) = Some v \<and> json_stringify P v \<noteq> [])"

text \<open>
  The search as the specification words it: the category is \<open>all\<close> or the contact's own,
  and the keyword is empty, or occurs in the phone as typed, or occurs in lower case in
  the lower-cased name, address or category or in their phonetic initials.
\<close>

definition category_matches :: "jsstring \<Rightarrow> contact \<Rightarrow> bool" where
  "category_matches category c = (category = js ''all'' \<or> c_category c = category)"

definition keyword_matches :: "'k platform \<Rightarrow> jsstring \<Rightarrow> contact \<Rightarrow> bool" where
  "keyword_matches P keyword c =
     (keyword = [] \<or> sublist keyword (c_phone c) \<or>
      (\<exists>field \<in> {c_name c, c_address c, c_category c}.
          sublist (toLowerCase P keyword) (toLowerCase P field) \<or>
          sublist (toLowerCase P keyword) (getPinyinInitials P field)))"

section \<open>A small browser for the examples\<close>

text \<open>
  A browser to run the definitions on: keys are numbers, the cipher adds a mask made of
  the key and the nonce and appends it as a tag, text is coded with two bytes a code
  unit, \<open>btoa\<close> prefixes \<open>=\<close> to a binary string, dates are written in unary, letters
  \<open>A\<close>-\<open>Z\<close> have a lower case, and \<open>JSON.parse\<close> knows the documents of the examples.
\<close>

definition demo_mask :: "nat \<Rightarrow> bytes \<Rightarrow> 8 word" where
  "demo_mask k iv = of_nat k + sum_list iv"

definition demo_encrypt :: "nat \<Rightarrow> bytes \<Rightarrow> bytes \<Rightarrow> bytes option" where
  "demo_encrypt k iv data = Some (map (\<lambda>b. b + demo_mask k iv) data @ [demo_mask k iv])"

definition demo_decrypt :: "nat \<Rightarrow> bytes \<Rightarrow> bytes \<Rightarrow> bytes option" where
  "demo_decrypt k iv data =
     (if data \<noteq> [] \<and> last data = demo_mask k iv
      then Some (map (\<lambda>b. b - demo_mask k iv) (butlast data)) else None)"

definition demo_textEncode :: "jsstring \<Rightarrow> bytes" where
  "demo_textEncode s = concat (map (\<lambda>c. [of_nat (unat c div 256), of_nat (unat c mod 256)]) s)"

fun demo_textDecode :: "bytes \<Rightarrow> jsstring" where
  "demo_textDecode (hi # lo # rest) = of_nat (unat hi * 256 + unat lo) # demo_textDecode rest"
| "demo_textDecode _ = []"

definition demo_btoa :: "jsstring \<Rightarrow> jsstring option" where
  "demo_btoa bin = (if list_all (\<lambda>c. c < 256) bin then Some (61 # bin) else None)"

definition demo_atob :: "jsstring \<Rightarrow> jsstring option" where
  "demo_atob e =
     (case e of
        [] \<Rightarrow> None
      | c # bin \<Rightarrow> if c = 61 \<and> list_all (\<lambda>c. c < 256) bin then Some bin else None)"

definition demo_importKey :: "jsstring \<Rightarrow> nat option" where
  "demo_importKey s = (case s of [a, c] \<Rightarrow> if a = 107 then Some (unat c) else None | _ \<Rightarrow> None)"

definition demo_exportKey :: "nat \<Rightarrow> jsstring option" where
  "demo_exportKey k = Some [107, of_nat k]"

definition demo_toISOString :: "int \<Rightarrow> jsstring" where
  "demo_toISOString t = replicate (nat t) 73"

definition demo_parseDate :: "jsstring \<Rightarrow> int option" where
  "demo_parseDate s = (if list_all (\<lambda>c. c = 73) s then Some (int (length s)) else None)"

definition demo_toLowerCase :: "jsstring \<Rightarrow> jsstring" where
  "demo_toLowerCase s = map (\<lambda>c. if 65 \<le> c \<and> c \<le> 90 then c + 32 else c) s"

fun demo_stringify :: "json \<Rightarrow> jsstring" where
  "demo_stringify JNull = [110]"
| "demo_stringify (JBool b) = [if b then 116 else 102]"
| "demo_stringify (JNum n) = [35, of_int n]"
| "demo_stringify (JStr s) = 34 # of_nat (length s) # s"
| "demo_stringify (JArr items) = 91 # of_nat (length items) # concat (map demo_stringify items)"
| "demo_stringify (JObj props) =
     123 # of_nat (length props) #
       concat (map (\<lambda>(k, v). (of_nat (length k) # k) @ (of_nat (length v) # v)) props)"

text \<open>The contacts of the repository's own search test, and a third one.\<close>

definition zhang_san :: contact where
  "zhang_san =
     \<lparr> c_id = js ''k1'', c_name = [0x5F20, 0x4E09], c_phone = js ''13512345678'',
       c_address = js ''XX'' @ [0x79D1, 0x6280, 0x516C, 0x53F8], c_category = [0x529E, 0x516C],
       c_createdAt = Some 1 \<rparr>"

definition li_si :: contact where
  "li_si =
     \<lparr> c_id = js ''k2'', c_name = [0x674E, 0x56DB], c_phone = js ''13887654321'',
       c_address = js ''XX'' @ [0x8BBE, 0x8BA1, 0x9662], c_category = [0x4E2A, 0x4EBA],
       c_createdAt = Some 2 \<rparr>"

definition ann_office :: contact where
  "ann_office =
     \<lparr> c_id = js ''k1'', c_name = js ''Ann'', c_phone = js ''5551234'', c_address = js ''Elm St'',
       c_category = js ''office'', c_createdAt = Some 1 \<rparr>"

definition ann_personal :: contact where
  "ann_personal =
     \<lparr> c_id = js ''k2'', c_name = js ''Ann'', c_phone = js ''5559876'', c_address = js ''Oak St'',
       c_category = js ''personal'', c_createdAt = Some 2 \<rparr>"

definition bob_data :: contactData where
  "bob_data =
     \<lparr> d_id = None, d_name = js ''Bob'', d_phone = js ''5550000'', d_address = js ''Ash St'',
       d_category = js ''office'' \<rparr>"

definition demo_entropy :: "nat entropy" where
  "demo_entropy = \<lparr> e_now = 40, e_rnd = js ''r7'', e_key = 5, e_iv = (\<lambda>i. of_nat i) \<rparr>"

definition demo_documents :: "json list" where
  "demo_documents =
     [JArr [JObj [(js ''id'', js ''14r7''), (js ''name'', js ''Bob''), (js ''phone'', js ''5550000''),
                  (js ''address'', js ''Ash St''), (js ''category'', js ''office''),
                  (js ''createdAt'', replicate 40 73)]]]"

definition demo_parse :: "jsstring \<Rightarrow> json option" where
  "demo_parse s = find (\<lambda>v. demo_stringify v = s) demo_documents"

definition demo_platform :: "nat platform" where
  "demo_platform =
     \<lparr> isSupported = True,
       importKey = demo_importKey,
       exportKey = demo_exportKey,
       subtle_encrypt = demo_encrypt,
       subtle_decrypt = demo_decrypt,
       textEncode = demo_textEncode,
       textDecode = demo_textDecode,
       spread_ok = (\<lambda>n. n < 65536),
       btoa = demo_btoa,
       atob = demo_atob,
       json_stringify = demo_stringify,
       json_parse = demo_parse,
       toISOString = demo_toISOString,
       parseDate = demo_parseDate,
       toLowerCase = demo_toLowerCase,
       quota_ok = (\<lambda>st k v. True) \<rparr>"

text \<open>The same browser with a store that refuses every write, and one without Web Crypto.\<close>

definition full_platform :: "nat platform" where
  "full_platform = demo_platform\<lparr>quota_ok := (\<lambda>st k v. False)\<rparr>"

definition plain_platform :: "nat platform" where
  "plain_platform = demo_platform\<lparr>isSupported := False\<rparr>"

definition two_anns :: manager where
  "two_anns = \<lparr> contacts = [ann_office, ann_personal], listeners = [] \<rparr>"

definition no_contacts :: manager where
  "no_contacts = \<lparr> contacts = [], listeners = [] \<rparr>"

definition empty_store :: storage where
  "empty_store = Map.empty"

definition change_phone :: updatedData where
  "change_phone =
     \<lparr> u_id = None, u_name = None, u_phone = Some (js ''5551111''), u_address = None,
       u_category = None \<rparr>"

definition blank_data :: contactData where
  "blank_data = \<lparr> d_id = None, d_name = [], d_phone = [], d_address = [], d_category = js ''office'' \<rparr>"

definition blank_form :: form where
  "blank_form = \<lparr> f_name = js ''  '', f_phone = js ''5550000'', f_address = js ''Ash St'', f_category = js ''office'' \<rparr>"

definition fresh_modal :: addContactModal where
  "fresh_modal = \<lparr> editingContactId = None, errorMessage = None, shown = True \<rparr>"

definition to_personal :: updatedData where
  "to_personal = \<lparr> u_id = None, u_name = None, u_phone = None, u_address = None, u_category = Some (js ''personal'') \<rparr>"

definition bob_twin :: contact where
  "bob_twin =
     \<lparr> c_id = js ''k1'', c_name = js ''Bob'', c_phone = js ''5554444'', c_address = js ''Yew St'',
       c_category = js ''personal'', c_createdAt = Some 3 \<rparr>"

definition twin_ids :: manager where
  "twin_ids = \<lparr> contacts = [ann_office, bob_twin], listeners = [] \<rparr>"

definition to_bob_personal :: updatedData where
  "to_bob_personal = \<lparr> u_id = None, u_name = Some (js ''Bob''), u_phone = None, u_address = None, u_category = Some (js ''personal'') \<rparr>"

definition ann_again :: contactData where
  "ann_again =
     \<lparr> d_id = None, d_name = js ''Ann'', d_phone = js ''5552222'', d_address = js ''Fir St'',
       d_category = js ''office'' \<rparr>"

definition ann_school :: contactData where
  "ann_school =
     \<lparr> d_id = None, d_name = js ''Ann'', d_phone = js ''5553333'', d_address = js ''Fir St'',
       d_category = js ''school'' \<rparr>"

definition rename_bob :: updatedData where
  "rename_bob =
     \<lparr> u_id = None, u_name = Some (js ''Bob''), u_phone = None, u_address = None,
       u_category = Some (js ''personal'') \<rparr>"

definition rename_ann :: updatedData where
  "rename_ann =
     \<lparr> u_id = None, u_name = Some (js ''Ann''), u_phone = None, u_address = None,
       u_category = Some (js ''personal'') \<rparr>"

definition key_store :: storage where
  "key_store = empty_store(keyName \<mapsto> [107, 5])"

definition counting_nonce :: "nat \<Rightarrow> 8 word" where
  "counting_nonce i = of_nat i"


definition truncated_envelope :: jsstring where
  "truncated_envelope = [61, 0, 1, 2, 3, 4, 5, 6, 7, 8, 9, 10, 11]"

text \<open>The value \<open>saveToStorage\<close> serializes: the array of the \<open>toJSON\<close> objects.\<close>

definition document :: "'k platform \<Rightarrow> contact list \<Rightarrow> json option" where
  "document P cs = map_option (\<lambda>data. JArr (map JObj data)) (those (map (toJSON P) cs))"

text \<open>
  A store whose contacts item was cut off after the nonce, the store an \<open>addContact\<close> on the
  empty manager leaves, and a random source whose suffixes are empty.
\<close>

definition corrupt_store :: storage where
  "corrupt_store = key_store(contactsKey \<mapsto> truncated_envelope)"

definition no_suffix :: "nat \<Rightarrow> nat \<times> jsstring" where
  "no_suffix i = (i, [])"

definition after_add :: storage where
  "after_add = snd (snd (addContact demo_platform no_contacts empty_store demo_entropy bob_data))"

text \<open>
  A browser whose text decoder drops a leading byte order mark, as \<open>TextDecoder\<close> does
  unless told otherwise, and one whose engine takes fewer than 13 spread arguments, so
  that \<open>arrayBufferToBase64\<close> throws on every envelope.
\<close>

definition strip_bom :: "jsstring \<Rightarrow> jsstring" where
  "strip_bom s = (case s of [] \<Rightarrow> [] | c # rest \<Rightarrow> if c = 0xFEFF then rest else s)"

definition bom_platform :: "nat platform" where
  "bom_platform = demo_platform\<lparr>textDecode := (\<lambda>b. strip_bom (demo_textDecode b))\<rparr>"

definition narrow_platform :: "nat platform" where
  "narrow_platform = demo_platform\<lparr>spread_ok := (\<lambda>n. n < 13)\<rparr>"

text \<open>
  A string that begins with U+FEFF, a string of 20000 letters and its envelope under the
  stored key, a string of 40000 letters, and the store an \<open>addContact\<close> on the empty
  manager leaves in the browser that cannot build an envelope.
\<close>

definition bom_text :: jsstring where
  "bom_text = [0xFEFF, 97, 98, 99]"

definition long_text :: jsstring where
  "long_text = replicate 20000 97"


definition sealed_text :: jsstring where
  "sealed_text = fst (encrypt demo_platform key_store 9 counting_nonce long_text)"

definition after_plain_add :: storage where
  "after_plain_add = snd (snd (addContact narrow_platform no_contacts empty_store demo_entropy bob_data))"

section \<open>Array lemmas\<close>

lemma findIndex_SomeD:
  "findIndex p xs = Some i \<Longrightarrow> i < length xs \<and> p (xs ! i) \<and> (\<forall>j<i. \<not> p (xs ! j))"
proof (induction xs arbitrary: i)
  case Nil
  then show ?case by simp
next
  case (Cons x xs)
  show ?case
  proof (cases "p x")
    case True
    with Cons.prems show ?thesis by simp
  next
    case False
    with Cons.prems obtain k where k: "findIndex p xs = Some k" "i = Suc k"
      by auto
    from Cons.IH [OF k(1)] False k(2) show ?thesis
      by (auto simp: nth_Cons split: nat.splits)
  qed
qed

lemma findIndex_None_iff: "findIndex p xs = None \<longleftrightarrow> (\<forall>x\<in>set xs. \<not> p x)"
  by (induction xs) auto

lemma splice_insert_remove:
  "i < length xs \<Longrightarrow> splice_insert i (xs ! i) (splice_remove i xs) = xs"
  by (simp add: splice_insert_def splice_remove_def min_def id_take_nth_drop [symmetric])

section \<open>When a save succeeds and when it fails\<close>

lemma those_toJSON:
  "list_all (\<lambda>c. c_createdAt c \<noteq> None) cs \<Longrightarrow> those (map (toJSON P) cs) \<noteq> None"
  by (induction cs) (auto simp: toJSON_def split: option.splits)

lemma save_succeeds:
  assumes "\<forall>s k v. quota_ok P s k v"
    and "list_all (\<lambda>c. c_createdAt c \<noteq> None) (contacts M)"
    and "notifyListeners M"
  shows "fst (saveToStorage P M st E)"
  using assms those_toJSON [OF assms(2), of P]
  by (auto simp: saveToStorage_def encryptAndStore_def setItem_def Let_def split: option.splits prod.splits)

lemma demo_platform_accepts: "\<forall>s k v. quota_ok demo_platform s k v"
  by (simp add: demo_platform_def)

lemma addContact_success:
  assumes "\<not> hasDuplicate (contacts M) (Some (d_name d)) (Some (d_category d)) None"
    and "fst (saveToStorage P (pushed M E d) st E)"
  shows "\<exists>st'. addContact P M st E d = (Success (Contact d (e_now E) (e_rnd E)), pushed M E d, st')"
  using assms by (auto simp: addContact_def pushed_def Let_def split: prod.splits)

lemma save_fails_without_quota:
  "\<forall>s k v. \<not> quota_ok P s k v \<Longrightarrow> \<not> fst (saveToStorage P M st E)"
  by (auto simp: saveToStorage_def encryptAndStore_def setItem_def Let_def
      split: option.splits prod.splits)

lemma full_platform_refuses: "\<forall>s k v. \<not> quota_ok full_platform s k v"
  by (simp add: full_platform_def)

lemma demo_save_succeeds:
  assumes "list_all (\<lambda>c. c_createdAt c \<noteq> None) (contacts M)" and "listeners M = []"
  shows "fst (saveToStorage demo_platform M st E)"
  using assms by (intro save_succeeds demo_platform_accepts) (simp_all add: notifyListeners_def)

lemma updateContact_success:
  assumes found: "findIndex (\<lambda>c. c_id c = ident) (contacts M) = Some i"
    and nodup: "\<not> hasDuplicate (contacts M) (u_name u) (u_category u) (Some ident)"
    and dated: "c_createdAt (contacts M ! i) \<noteq> None"
    and saved: "fst (saveToStorage P (replaced M i E u) st E)"
  shows "\<exists>st'. updateContact P M st E ident u
           = Some (Success (updated (contacts M ! i) E u), replaced M i E u, st')"
proof -
  from dated obtain t where t: "c_createdAt (contacts M ! i) = Some t" by auto
  show ?thesis
    using found nodup saved t
    by (auto simp: updateContact_def replaced_def updated_def toJSON_def Let_def split: prod.splits)
qed

lemma updateContact_SuccessD:
  assumes "updateContact P M st E ident u = Some (Success c, M', st')"
  shows "\<exists>i. findIndex (\<lambda>c. c_id c = ident) (contacts M) = Some i
           \<and> \<not> hasDuplicate (contacts M) (u_name u) (u_category u) (Some ident)
           \<and> c = updated (contacts M ! i) E u \<and> M' = replaced M i E u"
  using assms
  by (auto simp: updateContact_def replaced_def updated_def Let_def
      split: option.splits if_splits prod.splits)

lemma addContact_SuccessD:
  assumes "addContact P M st E d = (Success c, M', st')"
  shows "\<not> hasDuplicate (contacts M) (Some (d_name d)) (Some (d_category d)) None
           \<and> c = Contact d (e_now E) (e_rnd E) \<and> M' = pushed M E d"
  using assms
  by (auto simp: addContact_def pushed_def Let_def split: if_splits prod.splits)

lemma hasDuplicate_iff:
  "hasDuplicate cs name category excludeId \<longleftrightarrow>
     (\<exists>c\<in>set cs. Some (c_name c) = name \<and> Some (c_category c) = category \<and> Some (c_id c) \<noteq> excludeId)"
  by (simp add: hasDuplicate_def list_ex_iff)

lemma unique_two_anns: "unique_name_category (contacts two_anns)"
  by (simp add: unique_name_category_def two_anns_def ann_office_def ann_personal_def js_def)

section \<open>Identifiers the constructor assigns\<close>

lemma toString36_nonempty: "toString36 n \<noteq> []"
  by (subst toString36.simps) simp

lemma Contact_id_nonempty: "c_id (Contact d now rnd) \<noteq> []"
  by (simp add: Contact_def toString36_nonempty split: option.splits)

section \<open>The envelope\<close>

lemma length_generateIV: "length (generateIV r) = ivLength"
  by (simp add: generateIV_def)


lemma byte_of_code_unit: "ucast (ucast (b :: 8 word) :: 16 word) = b"
  by (rule ucast_up_ucast_id) (simp add: is_up)

lemma base64_roundtrip:
  assumes "base64_inverse P" and "arrayBufferToBase64 P buffer = Some e"
  shows "base64ToArrayBuffer P e = Some buffer"
proof -
  from assms(2) have "btoa P (map ucast buffer) = Some e"
    by (simp add: arrayBufferToBase64_def split: if_splits)
  with assms(1) have "atob P e = Some (map ucast buffer)"
    by (simp add: base64_inverse_def)
  then show ?thesis
    by (simp add: base64ToArrayBuffer_def byte_of_code_unit o_def)
qed

lemma encrypt_try_SomeD:
  assumes "encrypt_try P k iv s = Some e"
  shows "\<exists>ct. subtle_encrypt P k iv (textEncode P s) = Some ct
           \<and> arrayBufferToBase64 P (iv @ ct) = Some e"
  using assms by (auto simp: encrypt_try_def split: option.splits)

lemma envelope_opens:
  assumes aes: "aes_gcm_inverse P" and b64: "base64_inverse P" and codec: "text_roundtrip P s"
    and iv: "length iv = ivLength"
    and enc: "encrypt_try P k iv s = Some e"
  shows "decrypt_try P k e = Some s"
proof -
  from encrypt_try_SomeD [OF enc] obtain ct
    where ct: "subtle_encrypt P k iv (textEncode P s) = Some ct"
      and e: "arrayBufferToBase64 P (iv @ ct) = Some e"
    by blast
  from base64_roundtrip [OF b64 e] have "base64ToArrayBuffer P e = Some (iv @ ct)" .
  moreover from aes ct have "subtle_decrypt P k iv ct = Some (textEncode P s)"
    by (simp add: aes_gcm_inverse_def)
  ultimately show ?thesis
    using iv codec by (simp add: decrypt_try_def text_roundtrip_def)
qed

text \<open>
  Without the text codec law, the envelope opens to what the decoder makes of the encoded
  plaintext.
\<close>

lemma envelope_decodes:
  assumes aes: "aes_gcm_inverse P" and b64: "base64_inverse P"
    and iv: "length iv = ivLength"
    and enc: "encrypt_try P k iv s = Some e"
  shows "decrypt_try P k e = Some (textDecode P (textEncode P s))"
proof -
  from encrypt_try_SomeD [OF enc] obtain ct
    where ct: "subtle_encrypt P k iv (textEncode P s) = Some ct"
      and e: "arrayBufferToBase64 P (iv @ ct) = Some e"
    by blast
  from base64_roundtrip [OF b64 e] have "base64ToArrayBuffer P e = Some (iv @ ct)" .
  moreover from aes ct have "subtle_decrypt P k iv ct = Some (textEncode P s)"
    by (simp add: aes_gcm_inverse_def)
  ultimately show ?thesis
    using iv by (simp add: decrypt_try_def)
qed

text \<open>
  \<open>decrypt\<close> inverts \<open>encrypt\<close> also when \<open>encrypt\<close> fell back to the plaintext, provided
  the plaintext does not itself open to another string.
\<close>

lemma with_key_or_fallback_roundtrip:
  assumes "aes_gcm_inverse P" and "base64_inverse P" and "text_roundtrip P s"
    and fallback: "\<forall>k d. key = Some k \<longrightarrow> encrypt_try P k (generateIV r) s = None
                      \<longrightarrow> decrypt_try P k s = Some d \<longrightarrow> d = s"
  shows "decrypt_with P key (encrypt_with P key (generateIV r) s) = s"
proof (cases key)
  case None
  then show ?thesis by (simp add: decrypt_with_def encrypt_with_def)
next
  case (Some k)
  show ?thesis
  proof (cases "encrypt_try P k (generateIV r) s")
    case None
    with fallback Some have "\<forall>d. decrypt_try P k s = Some d \<longrightarrow> d = s" by simp
    with Some None show ?thesis
      by (auto simp: decrypt_with_def encrypt_with_def split: option.splits)
  next
    case e: (Some e)
    from envelope_opens [OF assms(1-3) length_generateIV e] Some e show ?thesis
      by (simp add: decrypt_with_def encrypt_with_def)
  qed
qed

lemma decrypt_try_no_base64: "atob P e = None \<Longrightarrow> decrypt_try P k e = None"
  by (simp add: decrypt_try_def base64ToArrayBuffer_def)

lemma encrypt_eq: "encrypt P st g r s = (encrypt_with P (fst (getKey P st g)) (generateIV r) s, snd (getKey P st g))"
  by (simp add: encrypt_def split: prod.splits)

lemma decrypt_eq: "decrypt P st g e = (decrypt_with P (fst (getKey P st g)) e, snd (getKey P st g))"
  by (simp add: decrypt_def split: prod.splits)

lemma getKey_stored: "stored_key P st = Some k \<Longrightarrow> getKey P st g = (Some k, st)"
  by (auto simp: stored_key_def getKey_def split: if_splits option.splits)

text \<open>
  When the \<open>try\<close> block of \<open>encrypt\<close> throws, the \<open>catch\<close> block returns the plaintext.
\<close>

lemma encrypt_falls_back:
  assumes "stored_key P st = Some k" and "encrypt_try P k (generateIV r) s = None"
  shows "encrypt P st g r s = (s, st)"
  using assms by (simp add: encrypt_eq getKey_stored encrypt_with_def)

section \<open>The small browser keeps the laws\<close>

lemma demo_aes: "aes_gcm_inverse demo_platform"
  by (auto simp: aes_gcm_inverse_def demo_platform_def demo_encrypt_def demo_decrypt_def o_def)

lemma demo_base64: "base64_inverse demo_platform"
  by (auto simp: base64_inverse_def demo_platform_def demo_btoa_def demo_atob_def split: if_splits)

lemma demo_code_unit:
  "(of_nat (unat (of_nat (unat c div 256) :: 8 word) * 256 + unat (of_nat (unat c mod 256) :: 8 word)) :: 16 word) = c"
proof -
  have "unat c < 65536"
    using unsigned_less [of c, where 'a = nat] by simp
  then have "unat c div 256 < 256" by simp
  then have "unat (of_nat (unat c div 256) :: 8 word) = unat c div 256"
    by (simp add: unat_of_nat)
  moreover have "unat (of_nat (unat c mod 256) :: 8 word) = unat c mod 256"
    by (simp add: unat_of_nat)
  ultimately show ?thesis
    by simp
qed

lemma demo_decode_step:
  "demo_textDecode (of_nat (unat c div 256) # of_nat (unat c mod 256) # rest) = c # demo_textDecode rest"
  using demo_code_unit [of c] by (simp only: demo_textDecode.simps)

lemma demo_text: "text_roundtrip demo_platform s"
proof -
  have "demo_textDecode (demo_textEncode s) = s"
  proof (induction s)
    case Nil
    show ?case by (simp add: demo_textEncode_def)
  next
    case (Cons c s)
    then show ?case
      by (simp add: demo_textEncode_def demo_decode_step del: demo_textDecode.simps)
  qed
  then show ?thesis
    by (simp add: text_roundtrip_def demo_platform_def)
qed

lemma plain_laws: "aes_gcm_inverse plain_platform" "base64_inverse plain_platform"
    "text_roundtrip plain_platform s"
  using demo_aes demo_base64 demo_text [of s]
  by (simp_all add: aes_gcm_inverse_def base64_inverse_def text_roundtrip_def plain_platform_def)

lemma byte_below_256: "(ucast (b :: 8 word) :: 16 word) < 256"
proof -
  have small: "unat b < 256"
    using unsigned_less [of b, where 'a = nat] by simp
  then have "unat b < 2 ^ 16"
    by simp
  then have "unat (ucast b :: 16 word) = unat b"
    by (simp add: unsigned_ucast_eq take_bit_nat_eq_self)
  with small show ?thesis
    by (simp add: word_less_nat_alt)
qed

lemma demo_spread: "length buffer < 65536 \<Longrightarrow> arrayBufferToBase64 demo_platform buffer \<noteq> None"
  by (simp add: arrayBufferToBase64_def demo_platform_def demo_btoa_def list_all_iff byte_below_256)

lemma demo_getKey_fresh: "getKey demo_platform empty_store 5 = (Some 5, key_store)"
  by (simp add: getKey_def newKey_def setItem_def demo_platform_def demo_exportKey_def
      empty_store_def key_store_def)

lemma demo_stored_key: "stored_key demo_platform key_store = Some 5"
  by (simp add: stored_key_def key_store_def demo_platform_def demo_importKey_def)

lemma plain_getKey: "getKey plain_platform st g = (None, st)"
  by (simp add: getKey_def plain_platform_def)

lemma length_demo_textEncode: "length (demo_textEncode s) = 2 * length s"
  by (induction s) (simp_all add: demo_textEncode_def)

lemma demo_encrypt_try:
  "2 * length s + 13 < 65536 \<Longrightarrow> encrypt_try demo_platform k (generateIV r) s \<noteq> None"
  using demo_spread [of "generateIV r @ map (\<lambda>b. b + demo_mask k (generateIV r)) (demo_textEncode s)
      @ [demo_mask k (generateIV r)]"]
  by (simp add: encrypt_try_def demo_platform_def demo_encrypt_def length_generateIV ivLength_def
      length_demo_textEncode)

text \<open>The envelope of the small browser: its length, and when it is too long.\<close>

lemma demo_envelope_length:
  assumes "encrypt_try demo_platform k iv s = Some e"
  shows "length e = length iv + 2 * length s + 2"
  using assms
  by (auto simp: encrypt_try_def demo_platform_def demo_encrypt_def arrayBufferToBase64_def
      demo_btoa_def length_demo_textEncode split: if_splits)

lemma demo_encrypt_try_None:
  "65536 \<le> 2 * length s + 13 \<Longrightarrow> encrypt_try demo_platform k (generateIV r) s = None"
  by (simp add: encrypt_try_def demo_platform_def demo_encrypt_def arrayBufferToBase64_def
      length_demo_textEncode length_generateIV ivLength_def)

lemma length_long_text: "length long_text = 20000"
  unfolding long_text_def by (rule length_replicate)


section \<open>The browser that drops the byte order mark, and the one without envelopes\<close>

lemma bom_laws: "aes_gcm_inverse bom_platform" "base64_inverse bom_platform"
  using demo_aes demo_base64
  by (simp_all add: aes_gcm_inverse_def base64_inverse_def bom_platform_def)

lemma bom_stored_key: "stored_key bom_platform key_store = Some 5"
  by (simp add: stored_key_def key_store_def bom_platform_def demo_platform_def demo_importKey_def)

lemma bom_encrypt_try: "encrypt_try bom_platform k iv s = encrypt_try demo_platform k iv s"
  by (simp add: encrypt_try_def arrayBufferToBase64_def bom_platform_def split: option.splits)

lemma bom_decodes: "textDecode bom_platform (textEncode bom_platform bom_text) = [97, 98, 99]"
proof -
  have "demo_textDecode (demo_textEncode bom_text) = bom_text"
    using demo_text [of bom_text] by (simp add: text_roundtrip_def demo_platform_def)
  then show ?thesis
    by (simp add: bom_platform_def demo_platform_def strip_bom_def bom_text_def)
qed

lemma narrow_laws: "aes_gcm_inverse narrow_platform" "base64_inverse narrow_platform"
    "text_roundtrip narrow_platform s"
  using demo_aes demo_base64 demo_text [of s]
  by (simp_all add: aes_gcm_inverse_def base64_inverse_def text_roundtrip_def narrow_platform_def)

lemma narrow_stored_key: "stored_key narrow_platform key_store = Some 5"
  by (simp add: stored_key_def key_store_def narrow_platform_def demo_platform_def demo_importKey_def)

lemma narrow_encrypt_try_None: "encrypt_try narrow_platform k (generateIV r) s = None"
  by (simp add: encrypt_try_def narrow_platform_def demo_platform_def demo_encrypt_def
      arrayBufferToBase64_def length_generateIV ivLength_def)

lemma narrow_platform_accepts: "\<forall>s k v. quota_ok narrow_platform s k v"
  by (simp add: narrow_platform_def demo_platform_def)

lemma narrow_getKey_fresh: "getKey narrow_platform empty_store 5 = (Some 5, key_store)"
  by (simp add: getKey_def newKey_def setItem_def narrow_platform_def demo_platform_def
      demo_exportKey_def empty_store_def key_store_def)

lemma empty_array_no_base64: "decrypt_try narrow_platform k (js ''[]'') = None"
  by (rule decrypt_try_no_base64) (simp add: narrow_platform_def demo_platform_def demo_atob_def js_def)

section \<open>What is saved and what is loaded\<close>

lemma those_map_SomeD:
  "those (map f xs) = Some ys \<Longrightarrow> length ys = length xs \<and> (\<forall>i<length xs. f (xs ! i) = Some (ys ! i))"
proof (induction xs arbitrary: ys)
  case Nil
  then show ?case by simp
next
  case (Cons x xs)
  then obtain y ys' where y: "f x = Some y" and ys': "those (map f xs) = Some ys'" and ys: "ys = y # ys'"
    by (auto split: option.splits)
  from Cons.IH [OF ys'] y ys show ?case
    by (auto simp: nth_Cons split: nat.splits)
qed

lemma saveToStorage_TrueD:
  assumes "saveToStorage P M st E = (True, st1)"
  shows "\<exists>doc. document P (contacts M) = Some doc
           \<and> st1 = (snd (getKey P st (e_key E)))(contactsKey \<mapsto>
                      encrypt_with P (fst (getKey P st (e_key E))) (generateIV (e_iv E)) (json_stringify P doc))"
  using assms
  by (auto simp: saveToStorage_def document_def encryptAndStore_def encrypt_eq setItem_def Let_def
      split: option.splits prod.splits if_splits)

lemma addContact_Success_saved:
  assumes "addContact P M st E d = (Success c, M1, st1)"
  shows "saveToStorage P (pushed M E d) st E = (True, st1)"
  using assms
  by (auto simp: addContact_def pushed_def Let_def split: if_splits prod.splits)

lemma envelope_nonempty:
  assumes "base64_inverse P" and "encrypt_try P k (generateIV r) s = Some e"
  shows "e \<noteq> []"
proof -
  from encrypt_try_SomeD [OF assms(2)] obtain ct
    where "arrayBufferToBase64 P (generateIV r @ ct) = Some e" by blast
  then have "btoa P (map ucast (generateIV r @ ct)) = Some e"
    by (simp add: arrayBufferToBase64_def split: if_splits)
  moreover have "map ucast (generateIV r @ ct) \<noteq> ([] :: jsstring)"
    using length_generateIV [of r] by (auto simp: ivLength_def)
  ultimately show ?thesis
    using assms(1) by (simp add: base64_inverse_def)
qed

lemma read_back_or_fallback:
  assumes laws: "aes_gcm_inverse P" "base64_inverse P"
    and doc: "json_roundtrip P doc" "text_roundtrip P (json_stringify P doc)"
    and st1: "st1 contactsKey = Some (encrypt_with P key (generateIV r) (json_stringify P doc))"
    and same_key: "fst (getKey P st1 g) = key"
    and fallback: "\<forall>k. key = Some k \<longrightarrow> encrypt_try P k (generateIV r) (json_stringify P doc) = None
                      \<longrightarrow> atob P (json_stringify P doc) = None"
  shows "fst (readAndDecrypt P st1 g contactsKey) = doc"
proof -
  let ?text = "json_stringify P doc"
  let ?e = "encrypt_with P key (generateIV r) ?text"
  from doc(1) have filled: "?text \<noteq> []"
    by (simp add: json_roundtrip_def)
  have nonempty: "?e \<noteq> []"
  proof (cases key)
    case None
    with filled show ?thesis by (simp add: encrypt_with_def)
  next
    case (Some k)
    show ?thesis
    proof (cases "encrypt_try P k (generateIV r) ?text")
      case None
      with Some filled show ?thesis by (simp add: encrypt_with_def)
    next
      case e: (Some e)
      from envelope_nonempty [OF laws(2) e] Some e show ?thesis
        by (simp add: encrypt_with_def)
    qed
  qed
  from fallback have "\<forall>k d. key = Some k \<longrightarrow> encrypt_try P k (generateIV r) ?text = None
      \<longrightarrow> decrypt_try P k ?text = Some d \<longrightarrow> d = ?text"
    by (simp add: decrypt_try_no_base64)
  then have "decrypt_with P key ?e = ?text"
    by (rule with_key_or_fallback_roundtrip [OF laws doc(2)])
  with nonempty st1 same_key doc(1) show ?thesis
    by (simp add: readAndDecrypt_def decrypt_eq json_roundtrip_def split: prod.splits)
qed

lemma js_keys_distinct:
  "js ''id'' \<noteq> js ''name''" "js ''id'' \<noteq> js ''phone''" "js ''id'' \<noteq> js ''address''"
  "js ''id'' \<noteq> js ''category''" "js ''id'' \<noteq> js ''createdAt''"
  "js ''name'' \<noteq> js ''phone''" "js ''name'' \<noteq> js ''address''" "js ''name'' \<noteq> js ''category''"
  "js ''name'' \<noteq> js ''createdAt''" "js ''phone'' \<noteq> js ''address''" "js ''phone'' \<noteq> js ''category''"
  "js ''phone'' \<noteq> js ''createdAt''" "js ''address'' \<noteq> js ''category''"
  "js ''address'' \<noteq> js ''createdAt''" "js ''category'' \<noteq> js ''createdAt''"
  by (simp_all add: js_def)

lemma load_item_toJSON:
  assumes "toJSON P c = Some props"
  shows "valid_item (JObj props)"
    and "c_id c \<noteq> [] \<Longrightarrow> c_id (load_item P props f) = c_id c"
    and "c_name (load_item P props f) = c_name c"
    and "c_phone (load_item P props f) = c_phone c"
    and "c_address (load_item P props f) = c_address c"
    and "c_category (load_item P props f) = c_category c"
  using assms js_keys_distinct js_keys_distinct [symmetric]
  by (auto simp: toJSON_def valid_item_def load_item_def Contact_def or_else_def Let_def
      split: option.splits)

lemma loaded_nth:
  "i < length kept \<Longrightarrow>
     map (\<lambda>(i, item). F i item) (zip [0..<length kept] kept) ! i = F i (kept ! i)"
  by simp

lemma load_document:
  assumes doc: "document P cs = Some doc"
    and read: "fst (readAndDecrypt P st g contactsKey) = doc"
  shows "length (contacts (fst (loadFromStorage P M st g fresh))) = length cs"
    and "\<forall>i<length cs.
           (c_id (cs ! i) \<noteq> [] \<longrightarrow> c_id (contacts (fst (loadFromStorage P M st g fresh)) ! i) = c_id (cs ! i))
           \<and> c_name (contacts (fst (loadFromStorage P M st g fresh)) ! i) = c_name (cs ! i)
           \<and> c_phone (contacts (fst (loadFromStorage P M st g fresh)) ! i) = c_phone (cs ! i)
           \<and> c_address (contacts (fst (loadFromStorage P M st g fresh)) ! i) = c_address (cs ! i)
           \<and> c_category (contacts (fst (loadFromStorage P M st g fresh)) ! i) = c_category (cs ! i)"
proof -
  from doc obtain data where data: "those (map (toJSON P) cs) = Some data"
    and doc': "doc = JArr (map JObj data)"
    by (auto simp: document_def)
  from those_map_SomeD [OF data] have len: "length data = length cs"
    and each: "\<And>i. i < length cs \<Longrightarrow> toJSON P (cs ! i) = Some (data ! i)"
    by auto
  have "valid_item (JObj props)" if "props \<in> set data" for props
  proof -
    from that obtain i where "i < length data" "data ! i = props"
      by (auto simp: in_set_conv_nth)
    with each [of i] len show ?thesis
      by (auto intro: load_item_toJSON(1))
  qed
  then have kept: "filter valid_item (map JObj data) = map JObj data"
    by (auto simp: filter_id_conv)
  have loaded: "contacts (fst (loadFromStorage P M st g fresh))
      = map (\<lambda>(i, item). load_item P (item_props item) (fresh i))
          (zip [0..<length (map JObj data)] (map JObj data))"
  proof -
    from read obtain st1 where "readAndDecrypt P st g contactsKey = (JArr (map JObj data), st1)"
      unfolding doc' by (cases "readAndDecrypt P st g contactsKey") simp
    then show ?thesis
      by (simp add: loadFromStorage_def truthy_def kept Let_def)
  qed
  show "length (contacts (fst (loadFromStorage P M st g fresh))) = length cs"
    by (simp add: loaded len)
  show "\<forall>i<length cs.
           (c_id (cs ! i) \<noteq> [] \<longrightarrow> c_id (contacts (fst (loadFromStorage P M st g fresh)) ! i) = c_id (cs ! i))
           \<and> c_name (contacts (fst (loadFromStorage P M st g fresh)) ! i) = c_name (cs ! i)
           \<and> c_phone (contacts (fst (loadFromStorage P M st g fresh)) ! i) = c_phone (cs ! i)
           \<and> c_address (contacts (fst (loadFromStorage P M st g fresh)) ! i) = c_address (cs ! i)
           \<and> c_category (contacts (fst (loadFromStorage P M st g fresh)) ! i) = c_category (cs ! i)"
  proof (intro allI impI)
    fix i
    assume i: "i < length cs"
    with len have "contacts (fst (loadFromStorage P M st g fresh)) ! i
        = load_item P (data ! i) (fresh i)"
      by (simp add: loaded item_props_def)
    with load_item_toJSON [OF each [OF i]]
    show "(c_id (cs ! i) \<noteq> [] \<longrightarrow> c_id (contacts (fst (loadFromStorage P M st g fresh)) ! i) = c_id (cs ! i))
           \<and> c_name (contacts (fst (loadFromStorage P M st g fresh)) ! i) = c_name (cs ! i)
           \<and> c_phone (contacts (fst (loadFromStorage P M st g fresh)) ! i) = c_phone (cs ! i)
           \<and> c_address (contacts (fst (loadFromStorage P M st g fresh)) ! i) = c_address (cs ! i)
           \<and> c_category (contacts (fst (loadFromStorage P M st g fresh)) ! i) = c_category (cs ! i)"
      by simp
  qed
qed

lemma read_undecryptable:
  assumes stored: "st contactsKey = Some e"
    and undecryptable: "\<forall>k. fst (getKey P st g) = Some k \<longrightarrow> decrypt_try P k e = None"
  shows "fst (readAndDecrypt P st g contactsKey)
           = (if e = [] then JNull else case json_parse P e of None \<Rightarrow> JNull | Some v \<Rightarrow> v)"
proof -
  have "decrypt_with P (fst (getKey P st g)) e = e"
    using undecryptable by (cases "fst (getKey P st g)") (simp_all add: decrypt_with_def)
  with stored show ?thesis
    by (simp add: readAndDecrypt_def decrypt_eq split: option.splits)
qed

lemma load_not_array:
  assumes "\<forall>items. fst (readAndDecrypt P st g contactsKey) \<noteq> JArr items"
  shows "contacts (fst (loadFromStorage P M st g fresh))
           = (if truthy (fst (readAndDecrypt P st g contactsKey)) then [] else contacts M)"
proof -
  obtain data st1 where r: "readAndDecrypt P st g contactsKey = (data, st1)"
    by (cases "readAndDecrypt P st g contactsKey")
  with assms have "\<forall>items. data \<noteq> JArr items" by simp
  then show ?thesis
    by (cases data) (simp_all add: loadFromStorage_def r)
qed

lemma load_undecryptable:
  assumes stored: "st contactsKey = Some e"
    and undecryptable: "\<forall>k. fst (getKey P st g) = Some k \<longrightarrow> decrypt_try P k e = None"
    and no_array: "\<forall>items. json_parse P e \<noteq> Some (JArr items)"
  shows "contacts (fst (loadFromStorage P M st g fresh))
           = (if e \<noteq> [] \<and> (\<exists>v. json_parse P e = Some v \<and> truthy v) then [] else contacts M)"
proof -
  note read = read_undecryptable [OF stored undecryptable]
  have "\<forall>items. fst (readAndDecrypt P st g contactsKey) \<noteq> JArr items"
    using no_array by (auto simp: read split: option.splits)
  from load_not_array [OF this, of M fresh] show ?thesis
    by (auto simp: read truthy_def split: option.splits)
qed

lemma stored_key_slot: "st' keyName = st keyName \<Longrightarrow> stored_key P st' = stored_key P st"
  by (simp add: stored_key_def)

lemma keyName_not_contactsKey: "keyName \<noteq> contactsKey"
  by (simp add: keyName_def contactsKey_def js_def)

lemma toString36_40: "toString36 40 = [49, 52]"
  by (simp add: toString36.simps digit36_def)

lemma demo_document:
  "document demo_platform (contacts (pushed no_contacts demo_entropy bob_data)) = Some (hd demo_documents)"
  by (simp add: document_def toJSON_def pushed_def no_contacts_def Contact_def bob_data_def
      demo_entropy_def demo_platform_def demo_toISOString_def demo_documents_def toString36_40 js_def)

lemma demo_json: "json_roundtrip demo_platform (hd demo_documents)"
  by (simp add: json_roundtrip_def demo_platform_def demo_parse_def demo_documents_def)

lemma corrupt_store_facts:
  "corrupt_store contactsKey = Some truncated_envelope"
  "\<forall>k. fst (getKey demo_platform corrupt_store 9) = Some k
       \<longrightarrow> decrypt_try demo_platform k truncated_envelope = None"
  "\<forall>items. json_parse demo_platform truncated_envelope \<noteq> Some (JArr items)"
  "json_parse demo_platform truncated_envelope = None"
proof -
  show "corrupt_store contactsKey = Some truncated_envelope"
    by (simp add: corrupt_store_def)
  have "corrupt_store keyName = key_store keyName"
    using keyName_not_contactsKey by (simp add: corrupt_store_def)
  then have "stored_key demo_platform corrupt_store = Some 5"
    using stored_key_slot [of corrupt_store key_store demo_platform] by (simp add: demo_stored_key)
  then have "fst (getKey demo_platform corrupt_store 9) = Some 5"
    by (simp add: getKey_stored)
  moreover have "decrypt_try demo_platform 5 truncated_envelope = None"
    by (simp add: decrypt_try_def base64ToArrayBuffer_def demo_platform_def demo_atob_def
        truncated_envelope_def ivLength_def demo_decrypt_def)
  ultimately show "\<forall>k. fst (getKey demo_platform corrupt_store 9) = Some k
       \<longrightarrow> decrypt_try demo_platform k truncated_envelope = None"
    by simp
  show none: "json_parse demo_platform truncated_envelope = None"
    by (simp add: demo_platform_def demo_parse_def demo_documents_def truncated_envelope_def)
  then show "\<forall>items. json_parse demo_platform truncated_envelope \<noteq> Some (JArr items)"
    by simp
qed

lemma narrow_document:
  "document narrow_platform (contacts (pushed no_contacts demo_entropy bob_data)) = Some (hd demo_documents)"
  by (simp add: document_def toJSON_def pushed_def no_contacts_def Contact_def bob_data_def
      demo_entropy_def narrow_platform_def demo_platform_def demo_toISOString_def demo_documents_def
      toString36_40 js_def)

lemma narrow_json: "json_roundtrip narrow_platform (hd demo_documents)"
  using demo_json by (simp add: json_roundtrip_def narrow_platform_def)

lemma narrow_text_no_base64:
  "atob narrow_platform (json_stringify narrow_platform (hd demo_documents)) = None"
  by (simp add: narrow_platform_def demo_platform_def demo_documents_def demo_atob_def)

section \<open>Rollback of a mutation whose save fails\<close>

lemma addContact_failed_save:
  assumes "\<not> hasDuplicate (contacts M) (Some (d_name d)) (Some (d_category d)) None"
    and "\<not> fst (saveToStorage P (pushed M E d) st E)"
  shows "\<exists>M' st'. addContact P M st E d = (Failure SaveFailed, M', st') \<and> contacts M' = contacts M"
  using assms by (auto simp: addContact_def pushed_def Let_def split: prod.splits)

lemma deleteContact_failed_save:
  assumes "findIndex (\<lambda>c. c_id c = ident) (contacts M) = Some i"
    and "\<not> fst (saveToStorage P (removed M i) st E)"
  shows "\<exists>M' st'. deleteContact P M st E ident = (Failure DeleteFailed, M', st')
            \<and> contacts M' = contacts M"
  using assms findIndex_SomeD [OF assms(1)]
  by (auto simp: deleteContact_def removed_def Let_def splice_insert_remove split: prod.splits)

lemma updateContact_failed_save:
  assumes found: "findIndex (\<lambda>c. c_id c = ident) (contacts M) = Some i"
    and nodup: "\<not> hasDuplicate (contacts M) (u_name u) (u_category u) (Some ident)"
    and dated: "c_createdAt (contacts M ! i) \<noteq> None"
    and fails: "\<not> fst (saveToStorage P (replaced M i E u) st E)"
  shows "\<exists>M' st'. updateContact P M st E ident u = Some (Failure UpdateFailed, M', st')
           \<and> contacts M' = contacts M"
proof -
  from dated obtain t where t: "c_createdAt (contacts M ! i) = Some t" by auto
  show ?thesis
    using found nodup fails t
    by (auto simp: updateContact_def replaced_def updated_def toJSON_def Let_def split: prod.splits)
qed

text \<open>
  C1. Whenever a mutation reaches \<open>saveToStorage\<close> and the save returns false, the mutation
  returns its persistence failure and the contact array is what it was before the call:
  \<open>addContact\<close> after the duplicate check, \<open>deleteContact\<close> when the id is found at index
  \<open>i\<close> (the record is back at index \<open>i\<close>), \<open>updateContact\<close> when the id is found, the
  duplicate check passes and the stored date is valid, so that \<open>toJSON\<close> returns.
\<close>

theorem rollback_when_persistence_fails:
  "(\<not> hasDuplicate (contacts M) (Some (d_name d)) (Some (d_category d)) None \<longrightarrow>
      \<not> fst (saveToStorage P (pushed M E d) st E) \<longrightarrow>
      (\<exists>M' st'. addContact P M st E d = (Failure SaveFailed, M', st') \<and> contacts M' = contacts M))
   \<and> (\<forall>i. findIndex (\<lambda>c. c_id c = ident) (contacts M) = Some i \<longrightarrow>
        \<not> fst (saveToStorage P (removed M i) st E) \<longrightarrow>
        (\<exists>M' st'. deleteContact P M st E ident = (Failure DeleteFailed, M', st')
            \<and> contacts M' = contacts M \<and> contacts M' ! i = contacts M ! i))
   \<and> (\<forall>i. findIndex (\<lambda>c. c_id c = ident) (contacts M) = Some i \<longrightarrow>
        \<not> hasDuplicate (contacts M) (u_name u) (u_category u) (Some ident) \<longrightarrow>
        c_createdAt (contacts M ! i) \<noteq> None \<longrightarrow>
        \<not> fst (saveToStorage P (replaced M i E u) st E) \<longrightarrow>
        (\<exists>M' st'. updateContact P M st E ident u = Some (Failure UpdateFailed, M', st')
            \<and> contacts M' = contacts M))"
proof (intro conjI allI impI)
  assume "\<not> hasDuplicate (contacts M) (Some (d_name d)) (Some (d_category d)) None"
    and "\<not> fst (saveToStorage P (pushed M E d) st E)"
  then show "\<exists>M' st'. addContact P M st E d = (Failure SaveFailed, M', st') \<and> contacts M' = contacts M"
    by (rule addContact_failed_save)
next
  fix i
  assume "findIndex (\<lambda>c. c_id c = ident) (contacts M) = Some i"
    and "\<not> fst (saveToStorage P (removed M i) st E)"
  from deleteContact_failed_save [OF this]
  show "\<exists>M' st'. deleteContact P M st E ident = (Failure DeleteFailed, M', st')
            \<and> contacts M' = contacts M \<and> contacts M' ! i = contacts M ! i"
    by auto
next
  fix i
  assume "findIndex (\<lambda>c. c_id c = ident) (contacts M) = Some i"
    and "\<not> hasDuplicate (contacts M) (u_name u) (u_category u) (Some ident)"
    and "c_createdAt (contacts M ! i) \<noteq> None"
    and "\<not> fst (saveToStorage P (replaced M i E u) st E)"
  then show "\<exists>M' st'. updateContact P M st E ident u = Some (Failure UpdateFailed, M', st')
            \<and> contacts M' = contacts M"
    by (rule updateContact_failed_save)
qed

theorem rollback_when_persistence_fails_witness:
  "fst (addContact full_platform two_anns empty_store demo_entropy bob_data) = Failure SaveFailed
   \<and> contacts (fst (snd (addContact full_platform two_anns empty_store demo_entropy bob_data)))
       = [ann_office, ann_personal]
   \<and> fst (deleteContact full_platform two_anns empty_store demo_entropy (js ''k1'')) = Failure DeleteFailed
   \<and> contacts (fst (snd (deleteContact full_platform two_anns empty_store demo_entropy (js ''k1''))))
       = [ann_office, ann_personal]
   \<and> map_option fst (updateContact full_platform two_anns empty_store demo_entropy (js ''k1'') change_phone)
       = Some (Failure UpdateFailed)
   \<and> map_option (contacts \<circ> fst \<circ> snd)
        (updateContact full_platform two_anns empty_store demo_entropy (js ''k1'') change_phone)
       = Some [ann_office, ann_personal]"
proof -
  have cs: "contacts two_anns = [ann_office, ann_personal]"
    by (simp add: two_anns_def)
  have a1: "\<not> hasDuplicate (contacts two_anns) (Some (d_name bob_data)) (Some (d_category bob_data)) None"
    by (simp add: hasDuplicate_def two_anns_def bob_data_def ann_office_def ann_personal_def js_def)
  have a2: "\<not> fst (saveToStorage full_platform (pushed two_anns demo_entropy bob_data) empty_store demo_entropy)"
    by (rule save_fails_without_quota [OF full_platform_refuses])
  have d1: "findIndex (\<lambda>c. c_id c = js ''k1'') (contacts two_anns) = Some 0"
    by (simp add: two_anns_def ann_office_def)
  have d2: "\<not> fst (saveToStorage full_platform (removed two_anns 0) empty_store demo_entropy)"
    by (rule save_fails_without_quota [OF full_platform_refuses])
  have u1: "\<not> hasDuplicate (contacts two_anns) (u_name change_phone) (u_category change_phone)
                (Some (js ''k1''))"
    by (simp add: hasDuplicate_def two_anns_def change_phone_def)
  have u2: "c_createdAt (contacts two_anns ! 0) \<noteq> None"
    by (simp add: two_anns_def ann_office_def)
  have u3: "\<not> fst (saveToStorage full_platform (replaced two_anns 0 demo_entropy change_phone)
                empty_store demo_entropy)"
    by (rule save_fails_without_quota [OF full_platform_refuses])
  note r = rollback_when_persistence_fails [of two_anns bob_data full_platform demo_entropy empty_store
      "js ''k1''" change_phone]
  from r a1 a2 obtain Ma sa where
    "addContact full_platform two_anns empty_store demo_entropy bob_data = (Failure SaveFailed, Ma, sa)"
    "contacts Ma = contacts two_anns" by blast
  moreover from r d1 d2 obtain Md sd where
    "deleteContact full_platform two_anns empty_store demo_entropy (js ''k1'') = (Failure DeleteFailed, Md, sd)"
    "contacts Md = contacts two_anns" by blast
  moreover from r d1 u1 u2 u3 obtain Mu su where
    "updateContact full_platform two_anns empty_store demo_entropy (js ''k1'') change_phone
       = Some (Failure UpdateFailed, Mu, su)"
    "contacts Mu = contacts two_anns" by blast
  ultimately show ?thesis
    by (simp add: cs)
qed

section \<open>Search\<close>

lemma js_includes_sublist: "js_includes s k \<longleftrightarrow> sublist k s"
  by (induction s) (auto simp: sublist_Cons_right)

lemma keyword_matches_code:
  "keyword_matches P keyword c \<longleftrightarrow>
     keyword = [] \<or>
     js_includes (toLowerCase P (c_name c)) (toLowerCase P keyword) \<or>
     js_includes (getPinyinInitials P (c_name c)) (toLowerCase P keyword) \<or>
     js_includes (c_phone c) keyword \<or>
     js_includes (toLowerCase P (c_address c)) (toLowerCase P keyword) \<or>
     js_includes (getPinyinInitials P (c_address c)) (toLowerCase P keyword) \<or>
     js_includes (toLowerCase P (c_category c)) (toLowerCase P keyword) \<or>
     js_includes (getPinyinInitials P (c_category c)) (toLowerCase P keyword)"
  unfolding keyword_matches_def js_includes_sublist by auto

text \<open>
  C9. \<open>filterContacts\<close> returns, in the order of the array, exactly the contacts that
  satisfy the category predicate and the keyword predicate; a contact whose category does
  not match is excluded whatever the keyword.
\<close>

theorem filterContacts_spec:
  "filterContacts P cs category keyword
     = filter (\<lambda>c. category_matches category c \<and> keyword_matches P keyword c) cs
   \<and> (\<forall>c. \<not> category_matches category c \<longrightarrow> c \<notin> set (filterContacts P cs category keyword))"
proof -
  have "matchContact P category keyword c
          \<longleftrightarrow> category_matches category c \<and> keyword_matches P keyword c" for c
  proof (cases "keyword = []")
    case True
    then show ?thesis
      by (simp add: matchContact_def category_matches_def all_category_def keyword_matches_def)
  next
    case False
    then show ?thesis
      unfolding keyword_matches_code
      by (auto simp: matchContact_def category_matches_def all_category_def Let_def)
  qed
  then have "matchContact P category keyword
       = (\<lambda>c. category_matches category c \<and> keyword_matches P keyword c)"
    by (rule ext)
  then have "filterContacts P cs category keyword
       = filter (\<lambda>c. category_matches category c \<and> keyword_matches P keyword c) cs"
    by (simp add: filterContacts_def)
  then show ?thesis
    by simp
qed

theorem filterContacts_spec_witness:
  "\<not> category_matches [0x529E, 0x516C] li_si
   \<and> li_si \<notin> set (filterContacts demo_platform [zhang_san, li_si] [0x529E, 0x516C] [0x674E, 0x56DB])
   \<and> filterContacts demo_platform [ann_office, ann_personal] (js ''office'') (js ''ANN'') = [ann_office]"
proof -
  have mismatch: "\<not> category_matches [0x529E, 0x516C] li_si"
    by (simp add: category_matches_def li_si_def js_def)
  have office: "category_matches (js ''office'') ann_office"
    and personal: "\<not> category_matches (js ''office'') ann_personal"
    by (simp_all add: category_matches_def ann_office_def ann_personal_def js_def)
  have "sublist (toLowerCase demo_platform (js ''ANN'')) (toLowerCase demo_platform (c_name ann_office))"
    by (simp add: demo_platform_def demo_toLowerCase_def ann_office_def js_def)
  then have keyword: "keyword_matches demo_platform (js ''ANN'') ann_office"
    by (auto simp: keyword_matches_def)
  note spec = filterContacts_spec [of demo_platform _ _ _]
  from spec [of "[zhang_san, li_si]" "[0x529E, 0x516C]" "[0x674E, 0x56DB]"] mismatch
  have "li_si \<notin> set (filterContacts demo_platform [zhang_san, li_si] [0x529E, 0x516C] [0x674E, 0x56DB])"
    by blast
  moreover from spec [of "[ann_office, ann_personal]" "js ''office''" "js ''ANN''"]
  have "filterContacts demo_platform [ann_office, ann_personal] (js ''office'') (js ''ANN'') = [ann_office]"
    using office personal keyword by simp
  ultimately show ?thesis
    using mismatch by simp
qed

section \<open>Validation\<close>

text \<open>
  C3, as stated, fails: \<open>addContact\<close> checks duplicates only. On an empty manager a
  request whose name, phone and address are empty is constructed, pushed, saved and
  returned as a success.
\<close>

theorem addContact_validates_counterexample:
  "d_name blank_data = [] \<and> d_phone blank_data = [] \<and> d_address blank_data = []
   \<and> fst (addContact demo_platform no_contacts empty_store demo_entropy blank_data)
       = Success (Contact blank_data 40 (js ''r7''))
   \<and> contacts (fst (snd (addContact demo_platform no_contacts empty_store demo_entropy blank_data)))
       = [Contact blank_data 40 (js ''r7'')]"
proof -
  have nodup: "\<not> hasDuplicate (contacts no_contacts) (Some (d_name blank_data)) (Some (d_category blank_data)) None"
    by (simp add: hasDuplicate_def no_contacts_def)
  have "fst (saveToStorage demo_platform (pushed no_contacts demo_entropy blank_data) empty_store demo_entropy)"
    by (rule save_succeeds [OF demo_platform_accepts])
      (simp_all add: pushed_def no_contacts_def Contact_def notifyListeners_def)
  from addContact_success [OF nodup this]
  show ?thesis
    by (auto simp: blank_data_def pushed_def no_contacts_def demo_entropy_def)
qed

lemma digits7_count: "digits7_pattern s \<Longrightarrow> 7 \<le> length (filter is_digit s)"
  by (simp add: digits7_pattern_def list_all_iff)

text \<open>
  C3, amended. The fields are validated by the form in front of the manager: when the
  trimmed name, phone or address is empty, or the trimmed phone holds fewer than 7
  digits, \<open>handleSubmit\<close> shows one of the three validation messages and returns without
  calling \<open>addContact\<close> or \<open>updateContact\<close>; the manager and the store are untouched.
\<close>

theorem form_rejects_invalid_input:
  assumes "trim (f_name frm) = [] \<or> trim (f_phone frm) = [] \<or> trim (f_address frm) = []
           \<or> length (filter is_digit (trim (f_phone frm))) < 7"
  shows "\<exists>m. handleSubmit P modal frm M st E = (modal\<lparr>errorMessage := Some m\<rparr>, M, st)
            \<and> (m = RequiredFields \<or> m = InvalidMobile \<or> m = TooFewDigits)"
proof -
  have "\<not> digits7_pattern (trim (f_phone frm))" if "length (filter is_digit (trim (f_phone frm))) < 7"
    using that digits7_count [of "trim (f_phone frm)"] by auto
  with assms show ?thesis
    by (auto simp: handleSubmit_def validateForm_def showError_def Let_def)
qed

theorem form_rejects_invalid_input_witness:
  "trim (f_name blank_form) = []
   \<and> handleSubmit demo_platform fresh_modal blank_form no_contacts empty_store demo_entropy
       = (fresh_modal\<lparr>errorMessage := Some RequiredFields\<rparr>, no_contacts, empty_store)"
proof -
  have blank: "trim (f_name blank_form) = []"
    by (simp add: trim_def blank_form_def js_def is_whitespace_def)
  then have "trim (f_name blank_form) = [] \<or> trim (f_phone blank_form) = [] \<or> trim (f_address blank_form) = []
           \<or> length (filter is_digit (trim (f_phone blank_form))) < 7"
    by simp
  from form_rejects_invalid_input [OF this, of demo_platform fresh_modal no_contacts empty_store demo_entropy]
  obtain m where m: "handleSubmit demo_platform fresh_modal blank_form no_contacts empty_store demo_entropy
       = (fresh_modal\<lparr>errorMessage := Some m\<rparr>, no_contacts, empty_store)"
    by blast
  have "fst (handleSubmit demo_platform fresh_modal blank_form no_contacts empty_store demo_entropy)
          = fresh_modal\<lparr>errorMessage := Some RequiredFields\<rparr>"
    using blank by (simp add: handleSubmit_def validateForm_def showError_def Let_def)
  with m blank show ?thesis by simp
qed

section \<open>The duplicate check and the uniqueness of name and category\<close>

lemma updated_name_category:
  "c_name (updated original E u) = or_else (u_name u) (c_name original)"
  "c_category (updated original E u) = or_else (u_category u) (c_category original)"
  by (simp_all add: updated_def Contact_def spread_def Let_def)

lemma add_keeps_unique:
  assumes "unique_name_category cs"
    and "\<not> hasDuplicate cs (Some (d_name d)) (Some (d_category d)) None"
  shows "unique_name_category (cs @ [Contact d now rnd])"
  using assms by (auto simp: unique_name_category_def hasDuplicate_iff Contact_def)

lemma update_keeps_unique:
  assumes uniq: "unique_name_category cs"
    and ids: "distinct (map c_id cs)"
    and both: "u_name u = None \<longleftrightarrow> u_category u = None"
    and found: "findIndex (\<lambda>c. c_id c = ident) cs = Some i"
    and nodup: "\<not> hasDuplicate cs (u_name u) (u_category u) (Some ident)"
  shows "unique_name_category (list_update cs i (updated (cs ! i) E u))"
proof -
  let ?nc = "\<lambda>c. (c_name c, c_category c)"
  from findIndex_SomeD [OF found] have i: "i < length cs" and idi: "c_id (cs ! i) = ident"
    by auto
  have "?nc (updated (cs ! i) E u) \<notin> set (map ?nc cs) - {map ?nc cs ! i}"
  proof (cases "u_name u")
    case None
    with both have "u_category u = None" by simp
    with None i show ?thesis
      by (simp add: updated_name_category or_else_def)
  next
    case (Some n)
    with both obtain g where g: "u_category u = Some g" by auto
    have "c = cs ! i" if "c \<in> set cs" and "?nc c = (n, g)" for c
    proof -
      from nodup that Some g have "c_id c = ident"
        by (auto simp: hasDuplicate_iff)
      moreover from that(1) obtain j where j: "j < length cs" "cs ! j = c"
        by (auto simp: in_set_conv_nth)
      ultimately have "map c_id cs ! j = map c_id cs ! i"
        using i idi by simp
      moreover have "j < length (map c_id cs)" "i < length (map c_id cs)"
        using i j by simp_all
      ultimately have "j = i"
        using ids nth_eq_iff_index_eq [of "map c_id cs" j i] by blast
      with j show ?thesis by simp
    qed
    with Some g i show ?thesis
      by (auto simp: updated_name_category or_else_def)
  qed
  with uniq have "distinct ((map ?nc cs)[i := ?nc (updated (cs ! i) E u)])"
    unfolding unique_name_category_def by (rule distinct_list_update)
  then show ?thesis
    by (simp add: unique_name_category_def map_update)
qed

lemma updateContact_Duplicate_iff:
  assumes "findIndex (\<lambda>c. c_id c = ident) (contacts M) = Some i"
  shows "updateContact P M st E ident u = Some (Failure (Duplicate (u_name u)), M, st)
         \<longleftrightarrow> hasDuplicate (contacts M) (u_name u) (u_category u) (Some ident)"
  using assms
  by (auto simp: updateContact_def Let_def split: option.splits prod.splits)

text \<open>
  C2, as stated, fails for \<open>updateContact\<close>. The check reads the name and category of the
  request, not those of the merged record: moving the office contact Ann to the category
  of the personal contact Ann, with a request that carries the category only, succeeds
  and leaves two contacts Ann in the same category. The check also skips every record
  whose id is the updated one: with two records under one id, as \<open>addContact\<close> stores them
  when the caller supplies the id, renaming the first to the name and category of the
  second succeeds.
\<close>

theorem update_keeps_uniqueness_counterexample:
  "unique_name_category (contacts two_anns)
   \<and> map_option fst (updateContact demo_platform two_anns empty_store demo_entropy (js ''k1'') to_personal)
       = Some (Success (ann_office\<lparr>c_category := js ''personal''\<rparr>))
   \<and> map_option (contacts \<circ> fst \<circ> snd)
        (updateContact demo_platform two_anns empty_store demo_entropy (js ''k1'') to_personal)
       = Some [ann_office\<lparr>c_category := js ''personal''\<rparr>, ann_personal]
   \<and> \<not> unique_name_category [ann_office\<lparr>c_category := js ''personal''\<rparr>, ann_personal]
   \<and> unique_name_category (contacts twin_ids)
   \<and> map_option (contacts \<circ> fst \<circ> snd)
        (updateContact demo_platform twin_ids empty_store demo_entropy (js ''k1'') to_bob_personal)
       = Some [ann_office\<lparr>c_name := js ''Bob'', c_category := js ''personal''\<rparr>, bob_twin]
   \<and> \<not> unique_name_category [ann_office\<lparr>c_name := js ''Bob'', c_category := js ''personal''\<rparr>, bob_twin]"
proof -
  have found: "findIndex (\<lambda>c. c_id c = js ''k1'') (contacts two_anns) = Some 0"
    by (simp add: two_anns_def ann_office_def)
  have nodup: "\<not> hasDuplicate (contacts two_anns) (u_name to_personal) (u_category to_personal)
                  (Some (js ''k1''))"
    by (simp add: hasDuplicate_def two_anns_def to_personal_def)
  have dated: "c_createdAt (contacts two_anns ! 0) \<noteq> None"
    by (simp add: two_anns_def ann_office_def)
  have saved: "fst (saveToStorage demo_platform (replaced two_anns 0 demo_entropy to_personal)
                  empty_store demo_entropy)"
    by (rule demo_save_succeeds)
      (simp_all add: replaced_def updated_def two_anns_def ann_office_def ann_personal_def)
  have upd: "updated ann_office demo_entropy to_personal = ann_office\<lparr>c_category := js ''personal''\<rparr>"
    by (simp add: updated_def Contact_def spread_def or_else_def to_personal_def ann_office_def js_def)
  from updateContact_success [OF found nodup dated saved] upd
  have first: "map_option fst (updateContact demo_platform two_anns empty_store demo_entropy (js ''k1'') to_personal)
       = Some (Success (ann_office\<lparr>c_category := js ''personal''\<rparr>))"
    "map_option (contacts \<circ> fst \<circ> snd)
        (updateContact demo_platform two_anns empty_store demo_entropy (js ''k1'') to_personal)
       = Some [ann_office\<lparr>c_category := js ''personal''\<rparr>, ann_personal]"
    by (auto simp: replaced_def two_anns_def)
  have found': "findIndex (\<lambda>c. c_id c = js ''k1'') (contacts twin_ids) = Some 0"
    by (simp add: twin_ids_def ann_office_def)
  have nodup': "\<not> hasDuplicate (contacts twin_ids) (u_name to_bob_personal) (u_category to_bob_personal)
                  (Some (js ''k1''))"
    by (simp add: hasDuplicate_def twin_ids_def to_bob_personal_def ann_office_def bob_twin_def js_def)
  have dated': "c_createdAt (contacts twin_ids ! 0) \<noteq> None"
    by (simp add: twin_ids_def ann_office_def)
  have saved': "fst (saveToStorage demo_platform (replaced twin_ids 0 demo_entropy to_bob_personal)
                  empty_store demo_entropy)"
    by (rule demo_save_succeeds)
      (simp_all add: replaced_def updated_def twin_ids_def ann_office_def bob_twin_def)
  have upd': "updated ann_office demo_entropy to_bob_personal
                = ann_office\<lparr>c_name := js ''Bob'', c_category := js ''personal''\<rparr>"
    by (simp add: updated_def Contact_def spread_def or_else_def to_bob_personal_def ann_office_def js_def)
  from updateContact_success [OF found' nodup' dated' saved'] upd'
  have second: "map_option (contacts \<circ> fst \<circ> snd)
        (updateContact demo_platform twin_ids empty_store demo_entropy (js ''k1'') to_bob_personal)
       = Some [ann_office\<lparr>c_name := js ''Bob'', c_category := js ''personal''\<rparr>, bob_twin]"
    by (auto simp: replaced_def twin_ids_def)
  have "\<not> unique_name_category [ann_office\<lparr>c_category := js ''personal''\<rparr>, ann_personal]"
    by (simp add: unique_name_category_def ann_office_def ann_personal_def)
  moreover have "unique_name_category (contacts twin_ids)"
    by (simp add: unique_name_category_def twin_ids_def ann_office_def bob_twin_def js_def)
  moreover have "\<not> unique_name_category [ann_office\<lparr>c_name := js ''Bob'', c_category := js ''personal''\<rparr>, bob_twin]"
    by (simp add: unique_name_category_def ann_office_def bob_twin_def)
  ultimately show ?thesis
    using unique_two_anns first second by simp
qed

text \<open>
  C2, amended. On an array in which no two contacts share name and category: a successful
  \<open>addContact\<close> keeps the property; \<open>addContact\<close> fails with the duplicate error when a
  stored contact has the name and category of the request, and succeeds, once the save
  succeeds, when every stored contact of that name has another category; a successful
  \<open>updateContact\<close> keeps the property when the ids of the array are pairwise distinct and
  the request carries both a name and a category, or neither; \<open>updateContact\<close> on a stored
  id fails with the duplicate error exactly when a stored contact with another id has the
  name and category of the request.
\<close>

theorem duplicate_check_keeps_uniqueness:
  assumes "unique_name_category (contacts M)"
  shows "(\<forall>c M' st'. addContact P M st E d = (Success c, M', st') \<longrightarrow> unique_name_category (contacts M'))
   \<and> ((\<exists>c\<in>set (contacts M). c_name c = d_name d \<and> c_category c = d_category d) \<longrightarrow>
        addContact P M st E d = (Failure (Duplicate (Some (d_name d))), M, st))
   \<and> ((\<forall>c\<in>set (contacts M). c_name c = d_name d \<longrightarrow> c_category c \<noteq> d_category d) \<longrightarrow>
        fst (saveToStorage P (pushed M E d) st E) \<longrightarrow>
        (\<exists>st'. addContact P M st E d = (Success (Contact d (e_now E) (e_rnd E)), pushed M E d, st')))
   \<and> (distinct (map c_id (contacts M)) \<longrightarrow> (u_name u = None \<longleftrightarrow> u_category u = None) \<longrightarrow>
        (\<forall>c M' st'. updateContact P M st E ident u = Some (Success c, M', st')
            \<longrightarrow> unique_name_category (contacts M')))
   \<and> (\<forall>i. findIndex (\<lambda>c. c_id c = ident) (contacts M) = Some i \<longrightarrow>
        (updateContact P M st E ident u = Some (Failure (Duplicate (u_name u)), M, st)
         \<longleftrightarrow> (\<exists>c\<in>set (contacts M). Some (c_name c) = u_name u \<and> Some (c_category c) = u_category u
                  \<and> c_id c \<noteq> ident)))"
proof (intro conjI allI impI)
  fix c M' st'
  assume "addContact P M st E d = (Success c, M', st')"
  from addContact_SuccessD [OF this] add_keeps_unique [OF assms]
  show "unique_name_category (contacts M')"
    by (simp add: pushed_def)
next
  assume "\<exists>c\<in>set (contacts M). c_name c = d_name d \<and> c_category c = d_category d"
  then have "hasDuplicate (contacts M) (Some (d_name d)) (Some (d_category d)) None"
    by (auto simp: hasDuplicate_iff)
  then show "addContact P M st E d = (Failure (Duplicate (Some (d_name d))), M, st)"
    by (simp add: addContact_def)
next
  assume "\<forall>c\<in>set (contacts M). c_name c = d_name d \<longrightarrow> c_category c \<noteq> d_category d"
    and saved: "fst (saveToStorage P (pushed M E d) st E)"
  then have "\<not> hasDuplicate (contacts M) (Some (d_name d)) (Some (d_category d)) None"
    by (auto simp: hasDuplicate_iff)
  from addContact_success [OF this saved]
  show "\<exists>st'. addContact P M st E d = (Success (Contact d (e_now E) (e_rnd E)), pushed M E d, st')" .
next
  fix c M' st'
  assume ids: "distinct (map c_id (contacts M))"
    and both: "u_name u = None \<longleftrightarrow> u_category u = None"
    and "updateContact P M st E ident u = Some (Success c, M', st')"
  from updateContact_SuccessD [OF this(3)] obtain i
    where "findIndex (\<lambda>c. c_id c = ident) (contacts M) = Some i"
      and "\<not> hasDuplicate (contacts M) (u_name u) (u_category u) (Some ident)"
      and "M' = replaced M i E u"
    by blast
  with update_keeps_unique [OF assms ids both, of ident i E]
  show "unique_name_category (contacts M')"
    by (simp add: replaced_def)
next
  fix i
  assume "findIndex (\<lambda>c. c_id c = ident) (contacts M) = Some i"
  from updateContact_Duplicate_iff [OF this]
  show "updateContact P M st E ident u = Some (Failure (Duplicate (u_name u)), M, st)
         \<longleftrightarrow> (\<exists>c\<in>set (contacts M). Some (c_name c) = u_name u \<and> Some (c_category c) = u_category u
                  \<and> c_id c \<noteq> ident)"
    by (simp add: hasDuplicate_iff)
qed

theorem duplicate_check_keeps_uniqueness_witness:
  "unique_name_category (contacts two_anns)
   \<and> addContact demo_platform two_anns empty_store demo_entropy ann_again
       = (Failure (Duplicate (Some (d_name ann_again))), two_anns, empty_store)
   \<and> fst (addContact demo_platform two_anns empty_store demo_entropy ann_school)
       = Success (Contact ann_school (e_now demo_entropy) (e_rnd demo_entropy))
   \<and> unique_name_category
        (contacts (fst (snd (addContact demo_platform two_anns empty_store demo_entropy ann_school))))
   \<and> map_option fst (updateContact demo_platform two_anns empty_store demo_entropy (js ''k1'') rename_bob)
       = Some (Success (ann_office\<lparr>c_name := js ''Bob'', c_category := js ''personal''\<rparr>))
   \<and> map_option (unique_name_category \<circ> contacts \<circ> fst \<circ> snd)
        (updateContact demo_platform two_anns empty_store demo_entropy (js ''k1'') rename_bob)
       = Some True
   \<and> updateContact demo_platform two_anns empty_store demo_entropy (js ''k1'') rename_ann
       = Some (Failure (Duplicate (u_name rename_ann)), two_anns, empty_store)"
proof -
  note again = duplicate_check_keeps_uniqueness [OF unique_two_anns,
      where P = demo_platform and st = empty_store and E = demo_entropy and d = ann_again]
  note school = duplicate_check_keeps_uniqueness [OF unique_two_anns,
      where P = demo_platform and st = empty_store and E = demo_entropy and d = ann_school]
  note bob = duplicate_check_keeps_uniqueness [OF unique_two_anns,
      where P = demo_platform and st = empty_store and E = demo_entropy and ident = "js ''k1''"
        and u = rename_bob]
  note ann = duplicate_check_keeps_uniqueness [OF unique_two_anns,
      where P = demo_platform and st = empty_store and E = demo_entropy and ident = "js ''k1''"
        and u = rename_ann]
  note k1 = school [THEN conjunct1]
  note k2 = again [THEN conjunct2, THEN conjunct1]
  note k3 = school [THEN conjunct2, THEN conjunct2, THEN conjunct1]
  note k4 = bob [THEN conjunct2, THEN conjunct2, THEN conjunct2, THEN conjunct1]
  note k5 = ann [THEN conjunct2, THEN conjunct2, THEN conjunct2, THEN conjunct2]
  have dup: "\<exists>c\<in>set (contacts two_anns). c_name c = d_name ann_again \<and> c_category c = d_category ann_again"
    by (simp add: two_anns_def ann_office_def ann_again_def)
  have a: "addContact demo_platform two_anns empty_store demo_entropy ann_again
       = (Failure (Duplicate (Some (d_name ann_again))), two_anns, empty_store)"
    by (rule k2 [THEN mp, OF dup])
  have differs: "\<forall>c\<in>set (contacts two_anns). c_name c = d_name ann_school \<longrightarrow> c_category c \<noteq> d_category ann_school"
    by (simp add: two_anns_def ann_office_def ann_personal_def ann_school_def js_def)
  have saved: "fst (saveToStorage demo_platform (pushed two_anns demo_entropy ann_school) empty_store demo_entropy)"
    by (rule demo_save_succeeds)
      (simp_all add: pushed_def Contact_def two_anns_def ann_office_def ann_personal_def)
  from k3 [THEN mp, OF differs, THEN mp, OF saved] obtain st' where
    b: "addContact demo_platform two_anns empty_store demo_entropy ann_school
        = (Success (Contact ann_school (e_now demo_entropy) (e_rnd demo_entropy)),
           pushed two_anns demo_entropy ann_school, st')"
    by (rule exE)
  from k1 [THEN spec, THEN spec, THEN spec, THEN mp, OF b]
  have c: "unique_name_category (contacts (pushed two_anns demo_entropy ann_school))" .
  have found: "findIndex (\<lambda>c. c_id c = js ''k1'') (contacts two_anns) = Some 0"
    by (simp add: two_anns_def ann_office_def)
  have nodup: "\<not> hasDuplicate (contacts two_anns) (u_name rename_bob) (u_category rename_bob) (Some (js ''k1''))"
    by (simp add: hasDuplicate_def two_anns_def rename_bob_def ann_office_def ann_personal_def js_def)
  have dated: "c_createdAt (contacts two_anns ! 0) \<noteq> None"
    by (simp add: two_anns_def ann_office_def)
  have saved': "fst (saveToStorage demo_platform (replaced two_anns 0 demo_entropy rename_bob) empty_store demo_entropy)"
    by (rule demo_save_succeeds)
      (simp_all add: replaced_def updated_def two_anns_def ann_office_def ann_personal_def)
  have upd: "updated (contacts two_anns ! 0) demo_entropy rename_bob
               = ann_office\<lparr>c_name := js ''Bob'', c_category := js ''personal''\<rparr>"
    by (simp add: updated_def Contact_def spread_def or_else_def rename_bob_def ann_office_def
        two_anns_def js_def)
  from updateContact_success [OF found nodup dated saved'] obtain st'' where
    u: "updateContact demo_platform two_anns empty_store demo_entropy (js ''k1'') rename_bob
         = Some (Success (updated (contacts two_anns ! 0) demo_entropy rename_bob),
                 replaced two_anns 0 demo_entropy rename_bob, st'')"
    by (rule exE)
  have ids: "distinct (map c_id (contacts two_anns))"
    by (simp add: two_anns_def ann_office_def ann_personal_def js_def)
  have both: "u_name rename_bob = None \<longleftrightarrow> u_category rename_bob = None"
    by (simp add: rename_bob_def)
  from k4 [THEN mp, OF ids, THEN mp, OF both, THEN spec, THEN spec, THEN spec,
      THEN mp, OF u]
  have d: "unique_name_category (contacts (replaced two_anns 0 demo_entropy rename_bob))" .
  have "\<exists>c\<in>set (contacts two_anns). Some (c_name c) = u_name rename_ann
          \<and> Some (c_category c) = u_category rename_ann \<and> c_id c \<noteq> js ''k1''"
    by (simp add: two_anns_def ann_office_def ann_personal_def rename_ann_def js_def)
  with k5 [THEN spec, THEN mp, OF found]
  have e: "updateContact demo_platform two_anns empty_store demo_entropy (js ''k1'') rename_ann
        = Some (Failure (Duplicate (u_name rename_ann)), two_anns, empty_store)"
    by (rule iffD2)
  have b': "fst (addContact demo_platform two_anns empty_store demo_entropy ann_school)
       = Success (Contact ann_school (e_now demo_entropy) (e_rnd demo_entropy))"
    and c': "unique_name_category
        (contacts (fst (snd (addContact demo_platform two_anns empty_store demo_entropy ann_school))))"
    using c by (simp_all add: b)
  have u': "map_option fst (updateContact demo_platform two_anns empty_store demo_entropy (js ''k1'') rename_bob)
       = Some (Success (ann_office\<lparr>c_name := js ''Bob'', c_category := js ''personal''\<rparr>))"
    and d': "map_option (unique_name_category \<circ> contacts \<circ> fst \<circ> snd)
        (updateContact demo_platform two_anns empty_store demo_entropy (js ''k1'') rename_bob)
       = Some True"
    using d upd by (simp_all add: u)
  from unique_two_anns a b' c' u' d' e show ?thesis
    by (intro conjI)
qed

section \<open>What an update changes\<close>

lemma updated_fields:
  assumes "u_id u = None" and "c_id original \<noteq> []"
  shows "c_id (updated original E u) = c_id original"
    and "c_name (updated original E u) = or_else (u_name u) (c_name original)"
    and "c_phone (updated original E u) = or_else (u_phone u) (c_phone original)"
    and "c_address (updated original E u) = or_else (u_address u) (c_address original)"
    and "c_category (updated original E u) = or_else (u_category u) (c_category original)"
    and "c_createdAt (updated original E u) = c_createdAt original"
  using assms by (simp_all add: updated_def Contact_def spread_def or_else_def Let_def)

text \<open>
  C10. A successful \<open>updateContact(id, data)\<close> whose data has no id, for a non-empty id (the
  constructor never assigns an empty one), replaces the first record with that id and
  nothing else: the array keeps its length and its other records, and the new record
  keeps the id and the creation date and takes each of name, phone, address and category
  from the data when supplied, from the old record otherwise.
\<close>

theorem updateContact_frame:
  assumes success: "updateContact P M st E ident u = Some (Success c, M', st')"
    and no_id: "u_id u = None"
    and nonempty: "ident \<noteq> []"
  shows "\<exists>i < length (contacts M).
           findIndex (\<lambda>c. c_id c = ident) (contacts M) = Some i
           \<and> contacts M' = list_update (contacts M) i c
           \<and> length (contacts M') = length (contacts M)
           \<and> (\<forall>j. j \<noteq> i \<longrightarrow> contacts M' ! j = contacts M ! j)
           \<and> c_id c = ident \<and> c_id (contacts M ! i) = ident
           \<and> c_name c = or_else (u_name u) (c_name (contacts M ! i))
           \<and> c_phone c = or_else (u_phone u) (c_phone (contacts M ! i))
           \<and> c_address c = or_else (u_address u) (c_address (contacts M ! i))
           \<and> c_category c = or_else (u_category u) (c_category (contacts M ! i))
           \<and> c_createdAt c = c_createdAt (contacts M ! i)"
proof -
  from updateContact_SuccessD [OF success] obtain i
    where found: "findIndex (\<lambda>c. c_id c = ident) (contacts M) = Some i"
      and c: "c = updated (contacts M ! i) E u"
      and M': "M' = replaced M i E u"
    by blast
  from findIndex_SomeD [OF found] have i: "i < length (contacts M)" and idi: "c_id (contacts M ! i) = ident"
    by auto
  from idi nonempty have "c_id (contacts M ! i) \<noteq> []" by simp
  note fields = updated_fields [OF no_id this, of E]
  show ?thesis
  proof (intro exI [of _ i] conjI allI impI)
    show "contacts M' = list_update (contacts M) i c"
      by (simp add: M' c replaced_def)
    show "length (contacts M') = length (contacts M)"
      by (simp add: M' replaced_def)
    show "contacts M' ! j = contacts M ! j" if "j \<noteq> i" for j
      using that by (simp add: M' replaced_def)
    show "c_id c = ident"
      by (simp add: c fields idi)
  qed (simp_all add: i found idi c fields)
qed

theorem updateContact_frame_witness:
  "map_option fst (updateContact demo_platform two_anns empty_store demo_entropy (js ''k1'') change_phone)
     = Some (Success (ann_office\<lparr>c_phone := js ''5551111''\<rparr>))
   \<and> map_option (contacts \<circ> fst \<circ> snd)
        (updateContact demo_platform two_anns empty_store demo_entropy (js ''k1'') change_phone)
     = Some [ann_office\<lparr>c_phone := js ''5551111''\<rparr>, ann_personal]"
proof -
  have found: "findIndex (\<lambda>c. c_id c = js ''k1'') (contacts two_anns) = Some 0"
    by (simp add: two_anns_def ann_office_def)
  have nodup: "\<not> hasDuplicate (contacts two_anns) (u_name change_phone) (u_category change_phone)
                 (Some (js ''k1''))"
    by (simp add: hasDuplicate_def two_anns_def change_phone_def)
  have dated: "c_createdAt (contacts two_anns ! 0) \<noteq> None"
    by (simp add: two_anns_def ann_office_def)
  have saved: "fst (saveToStorage demo_platform (replaced two_anns 0 demo_entropy change_phone)
                 empty_store demo_entropy)"
    by (rule demo_save_succeeds)
      (simp_all add: replaced_def updated_def two_anns_def ann_office_def ann_personal_def)
  from updateContact_success [OF found nodup dated saved] obtain st' where
    u: "updateContact demo_platform two_anns empty_store demo_entropy (js ''k1'') change_phone
         = Some (Success (updated (contacts two_anns ! 0) demo_entropy change_phone),
                 replaced two_anns 0 demo_entropy change_phone, st')"
    by (rule exE)
  have no_id: "u_id change_phone = None"
    by (simp add: change_phone_def)
  have nonempty: "js ''k1'' \<noteq> []"
    by (simp add: js_def)
  from updateContact_frame [OF u no_id nonempty] obtain i where
    i: "findIndex (\<lambda>c. c_id c = js ''k1'') (contacts two_anns) = Some i"
    and cs: "contacts (replaced two_anns 0 demo_entropy change_phone)
        = list_update (contacts two_anns) i (updated (contacts two_anns ! 0) demo_entropy change_phone)"
    and f: "c_id (updated (contacts two_anns ! 0) demo_entropy change_phone) = js ''k1''"
      "c_name (updated (contacts two_anns ! 0) demo_entropy change_phone)
         = or_else (u_name change_phone) (c_name (contacts two_anns ! i))"
      "c_phone (updated (contacts two_anns ! 0) demo_entropy change_phone)
         = or_else (u_phone change_phone) (c_phone (contacts two_anns ! i))"
      "c_address (updated (contacts two_anns ! 0) demo_entropy change_phone)
         = or_else (u_address change_phone) (c_address (contacts two_anns ! i))"
      "c_category (updated (contacts two_anns ! 0) demo_entropy change_phone)
         = or_else (u_category change_phone) (c_category (contacts two_anns ! i))"
      "c_createdAt (updated (contacts two_anns ! 0) demo_entropy change_phone)
         = c_createdAt (contacts two_anns ! i)"
    by blast
  from i found have i0: "i = 0" by simp
  have "updated (contacts two_anns ! 0) demo_entropy change_phone = ann_office\<lparr>c_phone := js ''5551111''\<rparr>"
    using f unfolding i0
    by (intro contact.equality) (simp_all add: or_else_def change_phone_def two_anns_def ann_office_def)
  with u cs i0 show ?thesis
    by (simp add: two_anns_def)
qed

section \<open>Encryption and decryption\<close>

text \<open>
  C4, as stated, fails. On a browser whose text decoder drops a leading byte order mark, as
  \<open>TextDecoder\<close> does, a string that begins with U+FEFF comes back without it. And a string
  that is itself an envelope under the stored key, too long to be sealed again, is
  returned as it is by \<open>encrypt\<close> and opened by \<open>decrypt\<close>.
\<close>

theorem roundtrip_of_every_string_counterexample:
  "fst (decrypt bom_platform (snd (encrypt bom_platform key_store 9 counting_nonce bom_text)) 9
         (fst (encrypt bom_platform key_store 9 counting_nonce bom_text))) = [97, 98, 99]
   \<and> bom_text \<noteq> [97, 98, 99]
   \<and> fst (decrypt demo_platform (snd (encrypt demo_platform key_store 9 counting_nonce sealed_text)) 9
         (fst (encrypt demo_platform key_store 9 counting_nonce sealed_text))) = long_text
   \<and> sealed_text \<noteq> long_text"
proof -
  have "encrypt_try demo_platform 5 (generateIV counting_nonce) bom_text \<noteq> None"
    by (rule demo_encrypt_try) (simp add: bom_text_def)
  then obtain e where e: "encrypt_try bom_platform 5 (generateIV counting_nonce) bom_text = Some e"
    by (auto simp: bom_encrypt_try)
  from envelope_decodes [OF bom_laws length_generateIV e]
  have "decrypt_try bom_platform 5 e = Some [97, 98, 99]"
    by (simp add: bom_decodes)
  with e have first: "fst (decrypt bom_platform (snd (encrypt bom_platform key_store 9 counting_nonce bom_text)) 9
         (fst (encrypt bom_platform key_store 9 counting_nonce bom_text))) = [97, 98, 99]"
    by (simp add: encrypt_eq decrypt_eq getKey_stored [OF bom_stored_key] encrypt_with_def decrypt_with_def)
  have "encrypt_try demo_platform 5 (generateIV counting_nonce) long_text \<noteq> None"
    by (rule demo_encrypt_try) (simp add: length_long_text)
  then obtain s where s: "encrypt_try demo_platform 5 (generateIV counting_nonce) long_text = Some s"
    by auto
  then have sealed: "sealed_text = s"
    by (simp add: sealed_text_def encrypt_eq getKey_stored [OF demo_stored_key] encrypt_with_def)
  from demo_envelope_length [OF s] have len: "length s = 40014"
    by (simp add: length_generateIV ivLength_def length_long_text)
  then have "encrypt_try demo_platform 5 (generateIV counting_nonce) s = None"
    by (intro demo_encrypt_try_None) simp
  from encrypt_falls_back [OF demo_stored_key this]
  have unchanged: "encrypt demo_platform key_store 9 counting_nonce s = (s, key_store)" .
  from envelope_opens [OF demo_aes demo_base64 demo_text length_generateIV s]
  have "decrypt_try demo_platform 5 s = Some long_text" .
  with unchanged have second: "fst (decrypt demo_platform (snd (encrypt demo_platform key_store 9 counting_nonce s)) 9
         (fst (encrypt demo_platform key_store 9 counting_nonce s))) = long_text"
    by (simp add: decrypt_eq getKey_stored [OF demo_stored_key] decrypt_with_def)
  from len have "s \<noteq> long_text"
    using length_long_text by auto
  with first second show ?thesis
    unfolding sealed by (simp add: bom_text_def)
qed

text \<open>
  C4, amended. Let both calls obtain the same key or both none, AES-GCM decryption invert
  encryption and \<open>atob\<close> invert \<open>btoa\<close>. Without a key both functions return their
  argument. With a key, when the \<open>try\<close> block of \<open>encrypt\<close> completes, the result is the
  base64 text of the nonce followed by the AES-GCM ciphertext, and \<open>decrypt\<close> of it is
  what the text decoder makes of the encoded \<open>s\<close>; when the \<open>try\<close> block throws, the
  result is \<open>s\<close> itself, and \<open>decrypt\<close> of it is \<open>s\<close> unless \<open>s\<close> opens as an envelope
  under the key. So \<open>decrypt(encrypt(s)) = s\<close> for every \<open>s\<close> that the text codec gives
  back and that, when \<open>encrypt\<close> falls back to it, does not open to another string.
\<close>

theorem decrypt_encrypt_roundtrip:
  assumes aes: "aes_gcm_inverse P" and base64: "base64_inverse P"
    and same_key: "fst (getKey P (snd (getKey P st g)) g') = fst (getKey P st g)"
  shows "(fst (getKey P st g) = None \<longrightarrow>
            fst (encrypt P st g r s) = s \<and> (\<forall>e. fst (decrypt P (snd (encrypt P st g r s)) g' e) = e))
    \<and> (\<forall>k e. fst (getKey P st g) = Some k \<longrightarrow> encrypt_try P k (generateIV r) s = Some e \<longrightarrow>
            fst (encrypt P st g r s) = e
            \<and> (\<exists>ct. subtle_encrypt P k (generateIV r) (textEncode P s) = Some ct
                  \<and> base64ToArrayBuffer P e = Some (generateIV r @ ct))
            \<and> fst (decrypt P (snd (encrypt P st g r s)) g' (fst (encrypt P st g r s)))
                = textDecode P (textEncode P s))
    \<and> (\<forall>k. fst (getKey P st g) = Some k \<longrightarrow> encrypt_try P k (generateIV r) s = None \<longrightarrow>
            fst (encrypt P st g r s) = s
            \<and> fst (decrypt P (snd (encrypt P st g r s)) g' (fst (encrypt P st g r s)))
                = (case decrypt_try P k s of None \<Rightarrow> s | Some d \<Rightarrow> d))
    \<and> (text_roundtrip P s \<longrightarrow>
          (\<forall>k d. fst (getKey P st g) = Some k \<longrightarrow> encrypt_try P k (generateIV r) s = None
                \<longrightarrow> decrypt_try P k s = Some d \<longrightarrow> d = s) \<longrightarrow>
          fst (decrypt P (snd (encrypt P st g r s)) g' (fst (encrypt P st g r s))) = s)"
proof (intro conjI allI impI)
  assume "fst (getKey P st g) = None"
  then show "fst (encrypt P st g r s) = s"
    by (simp add: encrypt_eq encrypt_with_def)
next
  fix e
  assume "fst (getKey P st g) = None"
  with same_key show "fst (decrypt P (snd (encrypt P st g r s)) g' e) = e"
    by (simp add: encrypt_eq decrypt_eq decrypt_with_def)
next
  fix k e
  assume k: "fst (getKey P st g) = Some k" and e: "encrypt_try P k (generateIV r) s = Some e"
  then show "fst (encrypt P st g r s) = e"
    by (simp add: encrypt_eq encrypt_with_def)
  from encrypt_try_SomeD [OF e] obtain ct
    where ct: "subtle_encrypt P k (generateIV r) (textEncode P s) = Some ct"
      and b: "arrayBufferToBase64 P (generateIV r @ ct) = Some e"
    by blast
  from base64_roundtrip [OF base64 b] ct
  show "\<exists>ct. subtle_encrypt P k (generateIV r) (textEncode P s) = Some ct
            \<and> base64ToArrayBuffer P e = Some (generateIV r @ ct)"
    by simp
  from envelope_decodes [OF aes base64 length_generateIV e] k e same_key
  show "fst (decrypt P (snd (encrypt P st g r s)) g' (fst (encrypt P st g r s)))
          = textDecode P (textEncode P s)"
    by (simp add: encrypt_eq decrypt_eq encrypt_with_def decrypt_with_def)
next
  fix k
  assume k: "fst (getKey P st g) = Some k" and none: "encrypt_try P k (generateIV r) s = None"
  then show "fst (encrypt P st g r s) = s"
    by (simp add: encrypt_eq encrypt_with_def)
  from k none same_key
  show "fst (decrypt P (snd (encrypt P st g r s)) g' (fst (encrypt P st g r s)))
          = (case decrypt_try P k s of None \<Rightarrow> s | Some d \<Rightarrow> d)"
    by (simp add: encrypt_eq decrypt_eq encrypt_with_def decrypt_with_def)
next
  assume "text_roundtrip P s"
    and "\<forall>k d. fst (getKey P st g) = Some k \<longrightarrow> encrypt_try P k (generateIV r) s = None
            \<longrightarrow> decrypt_try P k s = Some d \<longrightarrow> d = s"
  from with_key_or_fallback_roundtrip [OF aes base64 this] same_key
  show "fst (decrypt P (snd (encrypt P st g r s)) g' (fst (encrypt P st g r s))) = s"
    by (simp add: encrypt_eq decrypt_eq)
qed

theorem decrypt_encrypt_roundtrip_witness:
  "fst (decrypt demo_platform (snd (encrypt demo_platform empty_store 5 counting_nonce (js ''[]''))) 9
         (fst (encrypt demo_platform empty_store 5 counting_nonce (js ''[]'')))) = js ''[]''
   \<and> fst (encrypt plain_platform empty_store 5 counting_nonce (js ''[]'')) = js ''[]''
   \<and> fst (decrypt plain_platform (snd (encrypt plain_platform empty_store 5 counting_nonce (js ''[]''))) 9
         (fst (encrypt plain_platform empty_store 5 counting_nonce (js ''[]'')))) = js ''[]''
   \<and> fst (encrypt narrow_platform empty_store 5 counting_nonce (js ''[]'')) = js ''[]''
   \<and> fst (decrypt narrow_platform (snd (encrypt narrow_platform empty_store 5 counting_nonce (js ''[]''))) 9
         (fst (encrypt narrow_platform empty_store 5 counting_nonce (js ''[]'')))) = js ''[]''"
proof -
  have same: "fst (getKey demo_platform (snd (getKey demo_platform empty_store 5)) 9)
                = fst (getKey demo_platform empty_store 5)"
    by (simp add: demo_getKey_fresh getKey_stored [OF demo_stored_key])
  have enc: "\<forall>k d. fst (getKey demo_platform empty_store 5) = Some k
               \<longrightarrow> encrypt_try demo_platform k (generateIV counting_nonce) (js ''[]'') = None
               \<longrightarrow> decrypt_try demo_platform k (js ''[]'') = Some d \<longrightarrow> d = js ''[]''"
    by (simp add: demo_encrypt_try js_def)
  note demo = decrypt_encrypt_roundtrip [OF demo_aes demo_base64 same,
      where r = counting_nonce and s = "js ''[]''"]
  have same': "fst (getKey plain_platform (snd (getKey plain_platform empty_store 5)) 9)
                = fst (getKey plain_platform empty_store 5)"
    and none: "fst (getKey plain_platform empty_store 5) = None"
    by (simp_all add: plain_getKey)
  note plain = decrypt_encrypt_roundtrip [OF plain_laws(1,2) same',
      where r = counting_nonce and s = "js ''[]''"]
  have same'': "fst (getKey narrow_platform (snd (getKey narrow_platform empty_store 5)) 9)
                = fst (getKey narrow_platform empty_store 5)"
    and key: "fst (getKey narrow_platform empty_store 5) = Some 5"
    by (simp_all add: narrow_getKey_fresh getKey_stored [OF narrow_stored_key])
  note narrow = decrypt_encrypt_roundtrip [OF narrow_laws(1,2) same'',
      where r = counting_nonce and s = "js ''[]''"]
  have "fst (decrypt demo_platform (snd (encrypt demo_platform empty_store 5 counting_nonce (js ''[]''))) 9
         (fst (encrypt demo_platform empty_store 5 counting_nonce (js ''[]'')))) = js ''[]''"
    by (rule demo [THEN conjunct2, THEN conjunct2, THEN conjunct2, THEN mp, THEN mp,
        OF demo_text enc])
  moreover from plain [THEN conjunct1, THEN mp, OF none]
  have "fst (encrypt plain_platform empty_store 5 counting_nonce (js ''[]'')) = js ''[]''"
    "fst (decrypt plain_platform (snd (encrypt plain_platform empty_store 5 counting_nonce (js ''[]''))) 9
         (fst (encrypt plain_platform empty_store 5 counting_nonce (js ''[]'')))) = js ''[]''"
    by simp_all
  moreover note fallen = narrow [THEN conjunct2, THEN conjunct2, THEN conjunct1, THEN spec, THEN mp, THEN mp,
      OF key narrow_encrypt_try_None]
  from fallen [THEN conjunct1]
  have "fst (encrypt narrow_platform empty_store 5 counting_nonce (js ''[]'')) = js ''[]''" .
  moreover from fallen [THEN conjunct2]
  have "fst (decrypt narrow_platform (snd (encrypt narrow_platform empty_store 5 counting_nonce (js ''[]''))) 9
         (fst (encrypt narrow_platform empty_store 5 counting_nonce (js ''[]'')))) = js ''[]''"
    by (simp add: empty_array_no_base64)
  ultimately show ?thesis
    by simp
qed

text \<open>
  C6. \<open>decrypt\<close> returns a string on every input: without a key its argument; with a key
  its argument when the base64 decoding or the authenticated decryption throws (corrupt,
  truncated or altered text, wrong key), and the decoded plaintext only when both succeed.
\<close>

theorem decrypt_fails_soft:
  "(fst (getKey P st g) = None \<longrightarrow> fst (decrypt P st g e) = e)
   \<and> (\<forall>k. fst (getKey P st g) = Some k \<longrightarrow>
         (base64ToArrayBuffer P e = None
          \<or> (\<exists>combined. base64ToArrayBuffer P e = Some combined
                \<and> subtle_decrypt P k (take ivLength combined) (drop ivLength combined) = None))
         \<longrightarrow> fst (decrypt P st g e) = e)
   \<and> (fst (decrypt P st g e) = e
        \<or> (\<exists>k combined decrypted. fst (getKey P st g) = Some k
              \<and> base64ToArrayBuffer P e = Some combined
              \<and> subtle_decrypt P k (take ivLength combined) (drop ivLength combined) = Some decrypted
              \<and> fst (decrypt P st g e) = textDecode P decrypted))"
proof (cases "fst (getKey P st g)")
  case None
  then show ?thesis
    by (simp add: decrypt_eq decrypt_with_def)
next
  case (Some k)
  show ?thesis
  proof (cases "base64ToArrayBuffer P e")
    case None
    with Some show ?thesis
      by (simp add: decrypt_eq decrypt_with_def decrypt_try_def)
  next
    case combined: (Some combined)
    show ?thesis
    proof (cases "subtle_decrypt P k (take ivLength combined) (drop ivLength combined)")
      case None
      with Some combined show ?thesis
        by (simp add: decrypt_eq decrypt_with_def decrypt_try_def)
    next
      case (Some decrypted)
      with \<open>fst (getKey P st g) = Some k\<close> combined show ?thesis
        by (simp add: decrypt_eq decrypt_with_def decrypt_try_def)
    qed
  qed
qed

theorem decrypt_fails_soft_witness:
  "fst (decrypt demo_platform key_store 9 (js ''%%%'')) = js ''%%%''
   \<and> fst (decrypt demo_platform key_store 9 truncated_envelope) = truncated_envelope
   \<and> fst (decrypt plain_platform key_store 9 truncated_envelope) = truncated_envelope"
proof -
  have key: "fst (getKey demo_platform key_store 9) = Some 5"
    by (simp add: getKey_stored [OF demo_stored_key])
  have garbled: "base64ToArrayBuffer demo_platform (js ''%%%'') = None"
    by (simp add: base64ToArrayBuffer_def demo_platform_def demo_atob_def js_def)
  have short: "base64ToArrayBuffer demo_platform truncated_envelope
                 = Some [0, 1, 2, 3, 4, 5, 6, 7, 8, 9, 10, 11]"
    by (simp add: base64ToArrayBuffer_def demo_platform_def demo_atob_def truncated_envelope_def)
  have untagged: "subtle_decrypt demo_platform 5 (take ivLength [0, 1, 2, 3, 4, 5, 6, 7, 8, 9, 10, 11])
                    (drop ivLength [0, 1, 2, 3, 4, 5, 6, 7, 8, 9, 10, 11]) = None"
    by (simp add: ivLength_def demo_platform_def demo_decrypt_def)
  have none: "fst (getKey plain_platform key_store 9) = None"
    by (simp add: plain_getKey)
  note soft = decrypt_fails_soft [THEN conjunct2, THEN conjunct1, THEN spec, THEN mp,
      of demo_platform key_store 9 5, OF key]
  have "fst (decrypt demo_platform key_store 9 (js ''%%%'')) = js ''%%%''"
    using soft [of "js ''%%%''"] garbled by blast
  moreover have "fst (decrypt demo_platform key_store 9 truncated_envelope) = truncated_envelope"
    using soft [of truncated_envelope] short untagged by blast
  moreover have "fst (decrypt plain_platform key_store 9 truncated_envelope) = truncated_envelope"
    using decrypt_fails_soft [THEN conjunct1, of plain_platform key_store 9 truncated_envelope] none
    by blast
  ultimately show ?thesis
    by (intro conjI)
qed




section \<open>Reloading\<close>

text \<open>
  C5. After a successful \<open>addContact\<close>, \<open>loadFromStorage\<close> on the store it left, from any
  in-memory state, gives an array one longer than the array before the add, whose record
  at the new index has the id of the created contact and the name, phone, address and
  category of the request. This holds whether \<open>encrypt\<close> sealed the document or fell back
  to storing its text. The browser is asked that AES-GCM and base64 are inverses, that
  \<open>JSON.parse\<close> and the text codec give the saved document back, that the load obtains
  the key the save obtained (or none, as the save), and that \<open>atob\<close> rejects the text of
  the document, which begins with a bracket, when that text was stored unsealed.
\<close>

theorem add_then_load:
  assumes laws: "aes_gcm_inverse P" "base64_inverse P"
    and added: "addContact P M st E d = (Success c, M1, st1)"
    and codec: "\<forall>doc. document P (contacts M1) = Some doc
                  \<longrightarrow> json_roundtrip P doc \<and> text_roundtrip P (json_stringify P doc)"
    and same_key: "fst (getKey P st1 g) = fst (getKey P st (e_key E))"
    and unsealed: "\<forall>k doc. fst (getKey P st (e_key E)) = Some k \<longrightarrow> document P (contacts M1) = Some doc
                  \<longrightarrow> encrypt_try P k (generateIV (e_iv E)) (json_stringify P doc) = None
                  \<longrightarrow> atob P (json_stringify P doc) = None"
  shows "length (contacts (fst (loadFromStorage P M2 st1 g fresh))) = Suc (length (contacts M))
    \<and> c_id (contacts (fst (loadFromStorage P M2 st1 g fresh)) ! length (contacts M)) = c_id c
    \<and> c_name (contacts (fst (loadFromStorage P M2 st1 g fresh)) ! length (contacts M)) = d_name d
    \<and> c_phone (contacts (fst (loadFromStorage P M2 st1 g fresh)) ! length (contacts M)) = d_phone d
    \<and> c_address (contacts (fst (loadFromStorage P M2 st1 g fresh)) ! length (contacts M)) = d_address d
    \<and> c_category (contacts (fst (loadFromStorage P M2 st1 g fresh)) ! length (contacts M)) = d_category d"
proof -
  from addContact_SuccessD [OF added]
  have c: "c = Contact d (e_now E) (e_rnd E)" and M1: "M1 = pushed M E d"
    by simp_all
  from addContact_Success_saved [OF added] M1
  have "saveToStorage P M1 st E = (True, st1)" by simp
  from saveToStorage_TrueD [OF this] obtain doc
    where doc: "document P (contacts M1) = Some doc"
      and st1: "st1 contactsKey = Some (encrypt_with P (fst (getKey P st (e_key E)))
                  (generateIV (e_iv E)) (json_stringify P doc))"
    by auto
  from codec doc have rt: "json_roundtrip P doc" "text_roundtrip P (json_stringify P doc)"
    by simp_all
  from unsealed doc have fallback: "\<forall>k. fst (getKey P st (e_key E)) = Some k
      \<longrightarrow> encrypt_try P k (generateIV (e_iv E)) (json_stringify P doc) = None
      \<longrightarrow> atob P (json_stringify P doc) = None"
    by simp
  have read: "fst (readAndDecrypt P st1 g contactsKey) = doc"
    by (rule read_back_or_fallback [OF laws rt st1 same_key fallback])
  have last: "contacts M1 ! length (contacts M) = c" and len: "length (contacts M1) = Suc (length (contacts M))"
    by (simp_all add: M1 c pushed_def)
  have "c_id c \<noteq> []"
    by (simp add: c Contact_id_nonempty)
  with load_document [OF doc read, of M2 fresh] last len show ?thesis
    by (simp add: c Contact_def)
qed

theorem add_then_load_witness:
  "fst (addContact demo_platform no_contacts empty_store demo_entropy bob_data)
     = Success (Contact bob_data (e_now demo_entropy) (e_rnd demo_entropy))
   \<and> length (contacts (fst (loadFromStorage demo_platform no_contacts after_add 9 no_suffix))) = 1
   \<and> c_id (contacts (fst (loadFromStorage demo_platform no_contacts after_add 9 no_suffix)) ! 0) = js ''14r7''
   \<and> c_name (contacts (fst (loadFromStorage demo_platform no_contacts after_add 9 no_suffix)) ! 0) = js ''Bob''
   \<and> c_phone (contacts (fst (loadFromStorage demo_platform no_contacts after_add 9 no_suffix)) ! 0) = js ''5550000''
   \<and> c_address (contacts (fst (loadFromStorage demo_platform no_contacts after_add 9 no_suffix)) ! 0) = js ''Ash St''
   \<and> c_category (contacts (fst (loadFromStorage demo_platform no_contacts after_add 9 no_suffix)) ! 0) = js ''office''
   \<and> fst (addContact narrow_platform no_contacts empty_store demo_entropy bob_data)
     = Success (Contact bob_data (e_now demo_entropy) (e_rnd demo_entropy))
   \<and> after_plain_add contactsKey = Some (json_stringify narrow_platform (hd demo_documents))
   \<and> length (contacts (fst (loadFromStorage narrow_platform no_contacts after_plain_add 9 no_suffix))) = 1
   \<and> c_id (contacts (fst (loadFromStorage narrow_platform no_contacts after_plain_add 9 no_suffix)) ! 0) = js ''14r7''
   \<and> c_name (contacts (fst (loadFromStorage narrow_platform no_contacts after_plain_add 9 no_suffix)) ! 0) = js ''Bob''
   \<and> c_phone (contacts (fst (loadFromStorage narrow_platform no_contacts after_plain_add 9 no_suffix)) ! 0) = js ''5550000''
   \<and> c_address (contacts (fst (loadFromStorage narrow_platform no_contacts after_plain_add 9 no_suffix)) ! 0) = js ''Ash St''
   \<and> c_category (contacts (fst (loadFromStorage narrow_platform no_contacts after_plain_add 9 no_suffix)) ! 0) = js ''office''"
proof -
  have nodup: "\<not> hasDuplicate (contacts no_contacts) (Some (d_name bob_data)) (Some (d_category bob_data)) None"
    by (simp add: hasDuplicate_def no_contacts_def)
  have id: "c_id (Contact bob_data (e_now demo_entropy) (e_rnd demo_entropy)) = js ''14r7''"
    by (simp add: Contact_def bob_data_def demo_entropy_def toString36_40 js_def)
  have len: "length (contacts no_contacts) = 0"
    by (simp add: no_contacts_def)
  have bob: "d_name bob_data = js ''Bob''" "d_phone bob_data = js ''5550000''"
    "d_address bob_data = js ''Ash St''" "d_category bob_data = js ''office''"
    by (simp_all add: bob_data_def)
  have sealed: "fst (addContact demo_platform no_contacts empty_store demo_entropy bob_data)
     = Success (Contact bob_data (e_now demo_entropy) (e_rnd demo_entropy))
   \<and> length (contacts (fst (loadFromStorage demo_platform no_contacts after_add 9 no_suffix))) = 1
   \<and> c_id (contacts (fst (loadFromStorage demo_platform no_contacts after_add 9 no_suffix)) ! 0) = js ''14r7''
   \<and> c_name (contacts (fst (loadFromStorage demo_platform no_contacts after_add 9 no_suffix)) ! 0) = js ''Bob''
   \<and> c_phone (contacts (fst (loadFromStorage demo_platform no_contacts after_add 9 no_suffix)) ! 0) = js ''5550000''
   \<and> c_address (contacts (fst (loadFromStorage demo_platform no_contacts after_add 9 no_suffix)) ! 0) = js ''Ash St''
   \<and> c_category (contacts (fst (loadFromStorage demo_platform no_contacts after_add 9 no_suffix)) ! 0) = js ''office''"
  proof -
    have "fst (saveToStorage demo_platform (pushed no_contacts demo_entropy bob_data) empty_store demo_entropy)"
      by (rule demo_save_succeeds) (simp_all add: pushed_def no_contacts_def Contact_def)
    from addContact_success [OF nodup this] obtain st1 where
      added: "addContact demo_platform no_contacts empty_store demo_entropy bob_data
        = (Success (Contact bob_data (e_now demo_entropy) (e_rnd demo_entropy)),
           pushed no_contacts demo_entropy bob_data, st1)"
      by (rule exE)
    then have st1: "after_add = st1"
      by (simp add: after_add_def)
    from saveToStorage_TrueD [OF addContact_Success_saved [OF added]] obtain e
      where "st1 = (snd (getKey demo_platform empty_store (e_key demo_entropy)))(contactsKey \<mapsto> e)"
      by blast
    then have "st1 = key_store(contactsKey \<mapsto> e)"
      by (simp add: demo_entropy_def demo_getKey_fresh)
    then have "st1 keyName = key_store keyName"
      using keyName_not_contactsKey by simp
    then have "stored_key demo_platform st1 = Some 5"
      using stored_key_slot [of st1 key_store demo_platform] by (simp add: demo_stored_key)
    then have same_key: "fst (getKey demo_platform st1 9) = fst (getKey demo_platform empty_store (e_key demo_entropy))"
      by (simp add: getKey_stored demo_entropy_def demo_getKey_fresh)
    have codec: "\<forall>doc. document demo_platform (contacts (pushed no_contacts demo_entropy bob_data)) = Some doc
                    \<longrightarrow> json_roundtrip demo_platform doc
                        \<and> text_roundtrip demo_platform (json_stringify demo_platform doc)"
      by (simp add: demo_document demo_json demo_text)
    have complete: "encrypt_try demo_platform k (generateIV r) (json_stringify demo_platform (hd demo_documents))
        \<noteq> None" for k r
      by (rule demo_encrypt_try) (simp add: demo_platform_def demo_documents_def js_def)
    have unsealed: "\<forall>k doc. fst (getKey demo_platform empty_store (e_key demo_entropy)) = Some k
        \<longrightarrow> document demo_platform (contacts (pushed no_contacts demo_entropy bob_data)) = Some doc
        \<longrightarrow> encrypt_try demo_platform k (generateIV (e_iv demo_entropy)) (json_stringify demo_platform doc) = None
        \<longrightarrow> atob demo_platform (json_stringify demo_platform doc) = None"
      by (simp add: demo_document complete)
    have first: "fst (addContact demo_platform no_contacts empty_store demo_entropy bob_data)
       = Success (Contact bob_data (e_now demo_entropy) (e_rnd demo_entropy))"
      by (simp add: added)
    from add_then_load [OF demo_aes demo_base64 added codec same_key unsealed, of no_contacts no_suffix]
    show ?thesis
      unfolding st1 len id bob using first by simp
  qed
  have unsealed: "fst (addContact narrow_platform no_contacts empty_store demo_entropy bob_data)
     = Success (Contact bob_data (e_now demo_entropy) (e_rnd demo_entropy))
   \<and> after_plain_add contactsKey = Some (json_stringify narrow_platform (hd demo_documents))
   \<and> length (contacts (fst (loadFromStorage narrow_platform no_contacts after_plain_add 9 no_suffix))) = 1
   \<and> c_id (contacts (fst (loadFromStorage narrow_platform no_contacts after_plain_add 9 no_suffix)) ! 0) = js ''14r7''
   \<and> c_name (contacts (fst (loadFromStorage narrow_platform no_contacts after_plain_add 9 no_suffix)) ! 0) = js ''Bob''
   \<and> c_phone (contacts (fst (loadFromStorage narrow_platform no_contacts after_plain_add 9 no_suffix)) ! 0) = js ''5550000''
   \<and> c_address (contacts (fst (loadFromStorage narrow_platform no_contacts after_plain_add 9 no_suffix)) ! 0) = js ''Ash St''
   \<and> c_category (contacts (fst (loadFromStorage narrow_platform no_contacts after_plain_add 9 no_suffix)) ! 0) = js ''office''"
  proof -
    have "fst (saveToStorage narrow_platform (pushed no_contacts demo_entropy bob_data) empty_store demo_entropy)"
      by (intro save_succeeds narrow_platform_accepts)
        (simp_all add: pushed_def no_contacts_def Contact_def notifyListeners_def)
    from addContact_success [OF nodup this] obtain st1 where
      added: "addContact narrow_platform no_contacts empty_store demo_entropy bob_data
        = (Success (Contact bob_data (e_now demo_entropy) (e_rnd demo_entropy)),
           pushed no_contacts demo_entropy bob_data, st1)"
      by (rule exE)
    then have st1: "after_plain_add = st1"
      by (simp add: after_plain_add_def)
    from saveToStorage_TrueD [OF addContact_Success_saved [OF added]] obtain doc
      where doc: "document narrow_platform (contacts (pushed no_contacts demo_entropy bob_data)) = Some doc"
        and slot: "st1 = (snd (getKey narrow_platform empty_store (e_key demo_entropy)))(contactsKey \<mapsto>
               encrypt_with narrow_platform (fst (getKey narrow_platform empty_store (e_key demo_entropy)))
                 (generateIV (e_iv demo_entropy)) (json_stringify narrow_platform doc))"
      by blast
    from doc have "doc = hd demo_documents"
      by (simp add: narrow_document)
    with slot have "st1 = key_store(contactsKey \<mapsto> json_stringify narrow_platform (hd demo_documents))"
      by (simp add: demo_entropy_def narrow_getKey_fresh encrypt_with_def narrow_encrypt_try_None)
    then have stored: "st1 contactsKey = Some (json_stringify narrow_platform (hd demo_documents))"
      and "st1 keyName = key_store keyName"
      using keyName_not_contactsKey by simp_all
    then have "stored_key narrow_platform st1 = Some 5"
      using stored_key_slot [of st1 key_store narrow_platform] by (simp add: narrow_stored_key)
    then have same_key: "fst (getKey narrow_platform st1 9) = fst (getKey narrow_platform empty_store (e_key demo_entropy))"
      by (simp add: getKey_stored demo_entropy_def narrow_getKey_fresh)
    have codec: "\<forall>doc. document narrow_platform (contacts (pushed no_contacts demo_entropy bob_data)) = Some doc
                    \<longrightarrow> json_roundtrip narrow_platform doc
                        \<and> text_roundtrip narrow_platform (json_stringify narrow_platform doc)"
      by (simp add: narrow_document narrow_json narrow_laws)
    have rejected: "\<forall>k doc. fst (getKey narrow_platform empty_store (e_key demo_entropy)) = Some k
        \<longrightarrow> document narrow_platform (contacts (pushed no_contacts demo_entropy bob_data)) = Some doc
        \<longrightarrow> encrypt_try narrow_platform k (generateIV (e_iv demo_entropy)) (json_stringify narrow_platform doc) = None
        \<longrightarrow> atob narrow_platform (json_stringify narrow_platform doc) = None"
      by (simp add: narrow_document narrow_text_no_base64)
    have first: "fst (addContact narrow_platform no_contacts empty_store demo_entropy bob_data)
       = Success (Contact bob_data (e_now demo_entropy) (e_rnd demo_entropy))"
      by (simp add: added)
    from add_then_load [OF narrow_laws(1,2) added codec same_key rejected, of no_contacts no_suffix]
    show ?thesis
      unfolding st1 len id bob using first stored by simp
  qed
  from sealed unsealed show ?thesis
    by blast
qed

text \<open>
  C7, as stated, fails: \<open>readAndDecrypt\<close> answers a text that neither decrypts nor parses
  with \<open>null\<close>, as it answers an absent item, and \<open>loadFromStorage\<close> then leaves the array
  as it is. On a manager that holds two contacts, the load of a store whose contacts item
  is cut off after the nonce ends with the same two contacts.
\<close>

theorem load_empties_counterexample:
  "corrupt_store contactsKey = Some truncated_envelope
   \<and> decrypt_try demo_platform 5 truncated_envelope = None
   \<and> contacts (fst (loadFromStorage demo_platform two_anns corrupt_store 9 no_suffix))
       = [ann_office, ann_personal]"
proof -
  have "decrypt_try demo_platform 5 truncated_envelope = None"
    by (simp add: decrypt_try_def base64ToArrayBuffer_def demo_platform_def demo_atob_def
        truncated_envelope_def ivLength_def demo_decrypt_def)
  moreover from load_undecryptable [OF corrupt_store_facts(1-3), of two_anns no_suffix]
  have "contacts (fst (loadFromStorage demo_platform two_anns corrupt_store 9 no_suffix))
       = [ann_office, ann_personal]"
    by (simp add: corrupt_store_facts(4) two_anns_def)
  ultimately show ?thesis
    using corrupt_store_facts(1) by simp
qed

text \<open>
  C7, amended. When the stored text no longer decrypts and is not itself the text of a
  JSON array, \<open>loadFromStorage\<close> returns (no exception reaches the caller) and the array
  is emptied when the text parses to a truthy value, and left as it was otherwise; so it
  is empty whenever it was empty before the call, as it is when the constructor loads.
\<close>

theorem load_of_undecryptable_store:
  assumes stored: "st contactsKey = Some e"
    and undecryptable: "\<forall>k. fst (getKey P st g) = Some k \<longrightarrow> decrypt_try P k e = None"
    and no_array: "\<forall>items. json_parse P e \<noteq> Some (JArr items)"
  shows "contacts (fst (loadFromStorage P M st g fresh))
           = (if e \<noteq> [] \<and> (\<exists>v. json_parse P e = Some v \<and> truthy v) then [] else contacts M)
    \<and> (contacts M = [] \<longrightarrow> contacts (fst (loadFromStorage P M st g fresh)) = [])"
proof -
  have read: "fst (readAndDecrypt P st g contactsKey)
      = (if e = [] then JNull else case json_parse P e of None \<Rightarrow> JNull | Some v \<Rightarrow> v)"
    by (rule read_undecryptable [OF stored undecryptable])
  with no_array have "\<forall>items. fst (readAndDecrypt P st g contactsKey) \<noteq> JArr items"
    by (auto split: option.splits)
  then have "contacts (fst (loadFromStorage P M st g fresh))
      = (if truthy (fst (readAndDecrypt P st g contactsKey)) then [] else contacts M)"
    by (rule load_not_array)
  then have "contacts (fst (loadFromStorage P M st g fresh))
      = (if e \<noteq> [] \<and> (\<exists>v. json_parse P e = Some v \<and> truthy v) then [] else contacts M)"
    by (auto simp: read truthy_def split: option.splits)
  then show ?thesis
    by simp
qed

theorem load_of_undecryptable_store_witness:
  "contacts no_contacts = []
   \<and> contacts (fst (loadFromStorage demo_platform no_contacts corrupt_store 9 no_suffix)) = []"
proof -
  have empty: "contacts no_contacts = []"
    by (simp add: no_contacts_def)
  with load_of_undecryptable_store [OF corrupt_store_facts(1-3), of no_contacts no_suffix]
  show ?thesis
    by blast
qed

end
